theory Spec2Isabelle
  imports Complex_Main "HOL-Library.Log_Nat"
begin

section \<open>Numbers\<close>

text \<open>
  Every number of the source is a JavaScript \<open>number\<close>, an IEEE-754 binary64
  value: NaN, one of the two infinities, or a finite double. A finite double is modelled
  by the real number it denotes. The two zeros are one value, \<open>Fin 0\<close>: they are
  equal under \<open>===\<close>, both are falsy, and the source divides only by the non-zero
  literals 100, 2.97, 0.40 and 3, so the two zeros behave alike in the source, up to
  the sign of a zero in the result.
\<close>

datatype number = NaN | NegInf | Fin real | PosInf

text \<open>
  Rounding a real to the nearest double, ties to the even significand. The magnitude
  is scaled by \<open>2 ^ 1074\<close>, so that the smallest subnormal is 1 and every double
  is an integer; a scaled value with \<open>n\<close> bits before the point is rounded to a multiple
  of \<open>2 ^ (n - 53)\<close> (to an integer when \<open>n \<le> 53\<close>, which covers the subnormal
  range). A rounded magnitude of \<open>2 ^ 1024\<close> or more overflows to an infinity.
\<close>

definition roundHalfEven :: "real \<Rightarrow> int" where
  "roundHalfEven y =
     (let f = \<lfloor>y\<rfloor>; d = y - real_of_int f
      in if d < 1 / 2 then f else if 1 / 2 < d then f + 1 else if even f then f else f + 1)"

definition ulpExp :: "real \<Rightarrow> nat" where
  "ulpExp X = nat (bitlen \<lfloor>X\<rfloor> - 53)"

definition roundScaled :: "real \<Rightarrow> real" where
  "roundScaled X = real_of_int (roundHalfEven (X / 2 ^ ulpExp X)) * 2 ^ ulpExp X"

definition minExp :: nat where
  "minExp = 1074"

definition maxExp :: nat where
  "maxExp = 1024"

definition magnitude :: "real \<Rightarrow> real" where
  "magnitude x = roundScaled (\<bar>x\<bar> * 2 ^ minExp) / 2 ^ minExp"

definition toNumber :: "real \<Rightarrow> number" where
  "toNumber x =
     (if 2 ^ maxExp \<le> magnitude x then (if x < 0 then NegInf else PosInf)
      else Fin (if x < 0 then - magnitude x else magnitude x))"

text \<open>
  The operators \<open>*\<close>, \<open>/\<close>, \<open>+\<close> and \<open>-\<close>: the exact result, rounded; the
  cases with an infinity or NaN are those of IEEE-754 (\<open>Infinity * 0\<close>,
  \<open>Infinity - Infinity\<close> and \<open>Infinity / Infinity\<close> are NaN). A division of a
  non-zero number by zero is given the sign of the dividend; the source has no such
  division.
\<close>

fun fmul :: "number \<Rightarrow> number \<Rightarrow> number" where
  "fmul (Fin a) (Fin b) = toNumber (a * b)"
| "fmul (Fin a) PosInf = (if a = 0 then NaN else if 0 < a then PosInf else NegInf)"
| "fmul (Fin a) NegInf = (if a = 0 then NaN else if 0 < a then NegInf else PosInf)"
| "fmul PosInf (Fin b) = (if b = 0 then NaN else if 0 < b then PosInf else NegInf)"
| "fmul NegInf (Fin b) = (if b = 0 then NaN else if 0 < b then NegInf else PosInf)"
| "fmul PosInf PosInf = PosInf"
| "fmul PosInf NegInf = NegInf"
| "fmul NegInf PosInf = NegInf"
| "fmul NegInf NegInf = PosInf"
| "fmul NaN y = NaN"
| "fmul x NaN = NaN"

fun fdiv :: "number \<Rightarrow> number \<Rightarrow> number" where
  "fdiv (Fin a) (Fin b) =
     (if b = 0 then (if a = 0 then NaN else if 0 < a then PosInf else NegInf)
      else toNumber (a / b))"
| "fdiv (Fin a) PosInf = Fin 0"
| "fdiv (Fin a) NegInf = Fin 0"
| "fdiv PosInf (Fin b) = (if 0 \<le> b then PosInf else NegInf)"
| "fdiv NegInf (Fin b) = (if 0 \<le> b then NegInf else PosInf)"
| "fdiv PosInf PosInf = NaN"
| "fdiv PosInf NegInf = NaN"
| "fdiv NegInf PosInf = NaN"
| "fdiv NegInf NegInf = NaN"
| "fdiv NaN y = NaN"
| "fdiv x NaN = NaN"


fun fadd :: "number \<Rightarrow> number \<Rightarrow> number" where
  "fadd (Fin a) (Fin b) = toNumber (a + b)"
| "fadd (Fin a) PosInf = PosInf"
| "fadd (Fin a) NegInf = NegInf"
| "fadd PosInf (Fin b) = PosInf"
| "fadd NegInf (Fin b) = NegInf"
| "fadd PosInf PosInf = PosInf"
| "fadd NegInf NegInf = NegInf"
| "fadd PosInf NegInf = NaN"
| "fadd NegInf PosInf = NaN"
| "fadd NaN y = NaN"
| "fadd x NaN = NaN"

fun fsub :: "number \<Rightarrow> number \<Rightarrow> number" where
  "fsub (Fin a) (Fin b) = toNumber (a - b)"
| "fsub (Fin a) PosInf = NegInf"
| "fsub (Fin a) NegInf = PosInf"
| "fsub PosInf (Fin b) = PosInf"
| "fsub NegInf (Fin b) = NegInf"
| "fsub PosInf NegInf = PosInf"
| "fsub NegInf PosInf = NegInf"
| "fsub PosInf PosInf = NaN"
| "fsub NegInf NegInf = NaN"
| "fsub NaN y = NaN"
| "fsub x NaN = NaN"

text \<open>
  \<open>Math.ceil\<close>: the ceiling of a double is a double (a double of magnitude
  \<open>2 ^ 52\<close> or more is an integer); NaN and the infinities are returned as they
  are.
\<close>

fun fceil :: "number \<Rightarrow> number" where
  "fceil (Fin a) = Fin (real_of_int \<lceil>a\<rceil>)"
| "fceil x = x"

text \<open>
  The comparisons \<open><=\<close> and \<open><\<close>, false when an operand is NaN, and
  \<open>Math.max\<close> of two arguments, NaN when an argument is NaN.
\<close>

fun fle :: "number \<Rightarrow> number \<Rightarrow> bool" where
  "fle (Fin a) (Fin b) = (a \<le> b)"
| "fle NaN y = False"
| "fle x NaN = False"
| "fle NegInf y = True"
| "fle x PosInf = True"
| "fle x y = False"

fun flt :: "number \<Rightarrow> number \<Rightarrow> bool" where
  "flt (Fin a) (Fin b) = (a < b)"
| "flt NaN y = False"
| "flt x NaN = False"
| "flt x NegInf = False"
| "flt PosInf y = False"
| "flt x y = True"

definition fmax :: "number \<Rightarrow> number \<Rightarrow> number" where
  "fmax x y = (if x = NaN \<or> y = NaN then NaN else if fle x y then y else x)"

text \<open>
  A number is falsy when it is a zero or NaN. \<open>lit x\<close> is the value of the decimal
  literal that denotes the real \<open>x\<close>: the nearest double.
\<close>

definition truthy :: "number \<Rightarrow> bool" where
  "truthy x = (x \<noteq> NaN \<and> x \<noteq> Fin 0)"

definition lit :: "real \<Rightarrow> number" where
  "lit x = toNumber x"

definition isFinite :: "number \<Rightarrow> bool" where
  "isFinite x = (case x of Fin a \<Rightarrow> True | _ \<Rightarrow> False)"

definition realValue :: "number \<Rightarrow> real" where
  "realValue x = (case x of Fin a \<Rightarrow> a | _ \<Rightarrow> 0)"

section \<open>The estimator\<close>

text \<open>
  The types of \<open>src/types.ts\<close>. The names and units of the items are the UTF-8
  strings of the source. The override mapping \<open>currentPrices\<close> is a partial map from
  ids to numbers; an absent key reads as \<open>undefined\<close>, here \<open>None\<close>.
\<close>

record UserInputs =
  plateArea :: number
  wallHeight :: number
  wallPerimeter :: number
  windowArea :: number
  doorCount :: number

datatype ConstructionSystem = TRADITIONAL | SIP | STEEL_FRAME | WOOD_FRAME | METAL_PANEL

datatype category = Platea | Muros | Aberturas | Techo

record MaterialItem =
  idM :: string
  name :: string
  unit :: string
  quantity :: number
  unitPrice :: number
  category :: category

text \<open>
  \<open>currentPrices[id] || defaultPrice\<close>: the entry when it is present and truthy,
  otherwise the default.
\<close>

definition priceOr :: "number option \<Rightarrow> number \<Rightarrow> number" where
  "priceOr v defaultPrice =
     (case v of None \<Rightarrow> defaultPrice
      | Some p \<Rightarrow> if truthy p then p else defaultPrice)"

text \<open>
  \<open>Math.ceil(qty * 100) / 100\<close>, and \<open>addMat\<close>, which pushes one item onto the
  list.
\<close>

definition finalQty :: "number \<Rightarrow> number" where
  "finalQty qty = fdiv (fceil (fmul qty (lit 100))) (lit 100)"

definition addMat ::
  "(string \<rightharpoonup> number) \<Rightarrow> string \<Rightarrow> string \<Rightarrow> string \<Rightarrow> number \<Rightarrow> category
     \<Rightarrow> number \<Rightarrow> MaterialItem list \<Rightarrow> MaterialItem list" where
  "addMat currentPrices i n u qty cat defaultPrice materials =
     materials @
       [\<lparr>idM = i, name = n, unit = u, quantity = finalQty qty,
         unitPrice = priceOr (currentPrices i) defaultPrice, category = cat\<rparr>]"

text \<open>
  \<open>calculateMaterials\<close> of \<open>src/utils/calculations.ts\<close>. The source mutates a
  local array through \<open>addMat\<close>; here the list is passed along. The
  \<open>switch\<close> has one case for each of the five members of the enum.
\<close>

definition grossWallArea :: "UserInputs \<Rightarrow> number" where
  "grossWallArea inputs = fmul (wallPerimeter inputs) (wallHeight inputs)"

definition netWallArea :: "UserInputs \<Rightarrow> number" where
  "netWallArea inputs =
     fmax (lit 0)
       (fsub (fsub (grossWallArea inputs) (windowArea inputs)) (fmul (doorCount inputs) (lit 2)))"

definition calculateMaterials ::
  "UserInputs \<Rightarrow> ConstructionSystem \<Rightarrow> (string \<rightharpoonup> number) \<Rightarrow> MaterialItem list" where
  "calculateMaterials inputs system currentPrices =
    (let add = addMat currentPrices;
         materials = [];
         materials = add ''conc_h17'' (''Hormig'' @ [CHR 0xC3, CHR 0xB3] @ ''n H17 Elaborado'')
           (''m'' @ [CHR 0xC2, CHR 0xB3]) (fmul (plateArea inputs) (lit 0.12)) Platea (lit 180000) materials;
         materials = add ''mesh_steel'' ''Malla Acero Simag (15x15) 5.5mm''
           (''m'' @ [CHR 0xC2, CHR 0xB2]) (fmul (plateArea inputs) (lit 1.10)) Platea (lit 8500) materials;
         materials = add ''poly_film'' ''Film Polietileno 200 micrones''
           (''m'' @ [CHR 0xC2, CHR 0xB2]) (fmul (plateArea inputs) (lit 1.10)) Platea (lit 1200) materials;
         materials = (case system of
           TRADITIONAL \<Rightarrow>
             (let materials = add ''brick_hollow'' ''Ladrillo Hueco 18x18x33'' ''unidades''
                    (fmul (netWallArea inputs) (lit 15.5)) Muros (lit 950) materials;
                  materials = add ''mortar_mix'' ''Mortero Asiento (Premezcla)'' ''kg''
                    (fmul (netWallArea inputs) (lit 25)) Muros (lit 350) materials;
                  materials = add ''plaster_mix'' ''Revoque Listo (Interior/Ext)'' ''kg''
                    (fmul (netWallArea inputs) (lit 35)) Muros (lit 450) materials;
                  materials = add ''roof_struct_metal'' ''Perfil C Galv. 100x50x15x2mm'' ''ml''
                    (fmul (plateArea inputs) (lit 1.5)) Techo (lit 10500) materials
              in materials)
         | SIP \<Rightarrow>
             (let materials = add ''sip_panel'' ''Panel SIP 122x244cm (Espesor std)'' ''unidades''
                    (fmul (fdiv (netWallArea inputs) (lit 2.97)) (lit 1.1)) Muros (lit 120000) materials;
                  materials = add ''sip_screws'' ''Tornillos SIP (Caja)'' ''unidades''
                    (fmul (netWallArea inputs) (lit 10)) Muros (lit 250) materials;
                  materials = add ''osb_95'' ''Placa OSB 9.5mm (Exterior)''
                    (''m'' @ [CHR 0xC2, CHR 0xB2]) (fmul (netWallArea inputs) (lit 1.05)) Muros (lit 9500) materials;
                  materials = add ''roof_struct_wood''
                    (''Tirantes Madera 2'' @ [CHR 0x22] @ ''x6'' @ [CHR 0x22] @ '' (Estructura Techo)'')
                    ''ml'' (fmul (plateArea inputs) (lit 1.5)) Techo (lit 7500) materials
              in materials)
         | STEEL_FRAME \<Rightarrow>
             (let montantesCount = fceil (fdiv (wallPerimeter inputs) (lit 0.40));
                  montantesLength = fmul montantesCount (wallHeight inputs);
                  materials = add ''pgc_100'' ''Perfil PGC 100x40x0.9mm (Montantes)'' ''ml''
                    (fmul montantesLength (lit 1.05)) Muros (lit 8500) materials;
                  solerasLength = fadd (fmul (wallPerimeter inputs) (lit 2)) (fmul (windowArea inputs) (lit 2));
                  materials = add ''pgu_100'' ''Perfil PGU 100x35x0.9mm (Soleras)'' ''ml''
                    (fmul solerasLength (lit 1.05)) Muros (lit 7200) materials;
                  materials = add ''osb_95''
                    (''Placa OSB 9.5mm (Rigidizaci'' @ [CHR 0xC3, CHR 0xB3] @ ''n)'')
                    (''m'' @ [CHR 0xC2, CHR 0xB2]) (fmul (netWallArea inputs) (lit 1.05)) Muros (lit 9500) materials;
                  materials = add ''insul_wall'' ''Lana de Vidrio (Muro)''
                    (''m'' @ [CHR 0xC2, CHR 0xB2]) (fmul (netWallArea inputs) (lit 1.05)) Muros (lit 6500) materials;
                  materials = add ''screw_t1'' ''Tornillos T1 Punta Mecha'' ''unidades''
                    (fmul (netWallArea inputs) (lit 30)) Muros (lit 45) materials;
                  materials = add ''roof_struct_metal'' ''Perfil C Galv. 100x50x15x2mm'' ''ml''
                    (fmul (plateArea inputs) (lit 1.5)) Techo (lit 10500) materials
              in materials)
         | WOOD_FRAME \<Rightarrow>
             (let studsCount = fceil (fdiv (wallPerimeter inputs) (lit 0.40));
                  studsLength = fmul studsCount (wallHeight inputs);
                  materials = add ''wood_2x4''
                    (''Tirante Pino 2'' @ [CHR 0x22] @ ''x4'' @ [CHR 0x22] @ '' (Estructura)'') ''ml''
                    (fmul (fadd studsLength (fmul (wallPerimeter inputs) (lit 2))) (lit 1.1)) Muros (lit 4500) materials;
                  materials = add ''siding_wood''
                    (''Machimbre 3/4'' @ [CHR 0x22] @ '' (19mm) Exterior'')
                    (''m'' @ [CHR 0xC2, CHR 0xB2]) (fmul (netWallArea inputs) (lit 1.1)) Muros (lit 8500) materials;
                  materials = add ''insul_wall'' ''Lana de Vidrio (Muro)''
                    (''m'' @ [CHR 0xC2, CHR 0xB2]) (fmul (netWallArea inputs) (lit 1.05)) Muros (lit 6500) materials;
                  materials = add ''roof_struct_wood''
                    (''Tirantes Madera 2'' @ [CHR 0x22] @ ''x6'' @ [CHR 0x22] @ '' (Estructura Techo)'')
                    ''ml'' (fmul (plateArea inputs) (lit 1.5)) Techo (lit 7500) materials
              in materials)
         | METAL_PANEL \<Rightarrow>
             (let materials = add ''metal_panel_wall''
                    (''Panel S'' @ [CHR 0xC3, CHR 0xA1] @ ''ndwich Poliuretano (Muro)'')
                    (''m'' @ [CHR 0xC2, CHR 0xB2]) (fmul (netWallArea inputs) (lit 1.05)) Muros (lit 65000) materials;
                  cols = fceil (fdiv (wallPerimeter inputs) (lit 3));
                  materials = add ''tube_100x100'' ''Tubo Estructural 100x100x2.0mm'' ''ml''
                    (fmul cols (wallHeight inputs)) Muros (lit 18000) materials;
                  materials = add ''tube_100x50'' ''Tubo Estructural 100x50x2.0mm'' ''ml''
                    (fmul (wallPerimeter inputs) (lit 2)) Muros (lit 12000) materials;
                  materials = add ''screw_panel'' ''Tornillos para Panel'' ''unidades''
                    (fmul (netWallArea inputs) (lit 8)) Muros (lit 250) materials;
                  materials = add ''roof_struct_metal'' ''Perfil C Galv. 100x50x15x2mm'' ''ml''
                    (fmul (plateArea inputs) (lit 1.5)) Techo (lit 10500) materials
              in materials));
         materials = add ''win_dvh'' ''Ventanas DVH (Aluminio/PVC)''
           (''m'' @ [CHR 0xC2, CHR 0xB2]) (windowArea inputs) Aberturas (lit 250000) materials;
         materials = add ''door_ext'' ''Puerta Exterior Seguridad'' ''unidades''
           (doorCount inputs) Aberturas (lit 350000) materials;
         materials = add ''roof_sheet'' (''Chapa Sinusoidal Galv. N'' @ [CHR 0xC2, CHR 0xB0] @ ''25'')
           (''m'' @ [CHR 0xC2, CHR 0xB2]) (fmul (plateArea inputs) (lit 1.15)) Techo (lit 22000) materials;
         materials = add ''insul_roof''
           (''Aislante T'' @ [CHR 0xC3, CHR 0xA9] @ ''rmico (Espuma+Alum)'')
           (''m'' @ [CHR 0xC2, CHR 0xB2]) (fmul (plateArea inputs) (lit 1.15)) Techo (lit 6500) materials;
         materials = add ''screw_roof'' ''Tornillo Autoperforante Chapa (con arandela)'' ''unidades''
           (fmul (plateArea inputs) (lit 6)) Techo (lit 120) materials
     in materials)"

section \<open>Tables for the statements\<close>

text \<open>
  The ids of the items a system produces, the raw quantity passed to \<open>addMat\<close> for
  each of them, and the default price of each id, in the order of the calls. They are
  tied to \<open>calculateMaterials\<close> by the lemmas \<open>ids_of_result\<close>,
  \<open>quantities_of_result\<close> and \<open>prices_of_result\<close> below.
\<close>

definition materialIds :: "ConstructionSystem \<Rightarrow> string list" where
  "materialIds system =
     [''conc_h17'', ''mesh_steel'', ''poly_film''] @
     (case system of
        TRADITIONAL \<Rightarrow> [''brick_hollow'', ''mortar_mix'', ''plaster_mix'', ''roof_struct_metal'']
      | SIP \<Rightarrow> [''sip_panel'', ''sip_screws'', ''osb_95'', ''roof_struct_wood'']
      | STEEL_FRAME \<Rightarrow>
          [''pgc_100'', ''pgu_100'', ''osb_95'', ''insul_wall'', ''screw_t1'', ''roof_struct_metal'']
      | WOOD_FRAME \<Rightarrow> [''wood_2x4'', ''siding_wood'', ''insul_wall'', ''roof_struct_wood'']
      | METAL_PANEL \<Rightarrow>
          [''metal_panel_wall'', ''tube_100x100'', ''tube_100x50'', ''screw_panel'',
           ''roof_struct_metal'']) @
     [''win_dvh'', ''door_ext'', ''roof_sheet'', ''insul_roof'', ''screw_roof'']"

definition rawQuantities :: "UserInputs \<Rightarrow> ConstructionSystem \<Rightarrow> number list" where
  "rawQuantities inputs system =
     [fmul (plateArea inputs) (lit 0.12), fmul (plateArea inputs) (lit 1.10),
      fmul (plateArea inputs) (lit 1.10)] @
     (case system of
        TRADITIONAL \<Rightarrow>
          [fmul (netWallArea inputs) (lit 15.5), fmul (netWallArea inputs) (lit 25),
           fmul (netWallArea inputs) (lit 35), fmul (plateArea inputs) (lit 1.5)]
      | SIP \<Rightarrow>
          [fmul (fdiv (netWallArea inputs) (lit 2.97)) (lit 1.1),
           fmul (netWallArea inputs) (lit 10), fmul (netWallArea inputs) (lit 1.05),
           fmul (plateArea inputs) (lit 1.5)]
      | STEEL_FRAME \<Rightarrow>
          [fmul (fmul (fceil (fdiv (wallPerimeter inputs) (lit 0.40))) (wallHeight inputs)) (lit 1.05),
           fmul (fadd (fmul (wallPerimeter inputs) (lit 2)) (fmul (windowArea inputs) (lit 2)))
             (lit 1.05),
           fmul (netWallArea inputs) (lit 1.05), fmul (netWallArea inputs) (lit 1.05),
           fmul (netWallArea inputs) (lit 30), fmul (plateArea inputs) (lit 1.5)]
      | WOOD_FRAME \<Rightarrow>
          [fmul (fadd (fmul (fceil (fdiv (wallPerimeter inputs) (lit 0.40))) (wallHeight inputs))
                   (fmul (wallPerimeter inputs) (lit 2))) (lit 1.1),
           fmul (netWallArea inputs) (lit 1.1), fmul (netWallArea inputs) (lit 1.05),
           fmul (plateArea inputs) (lit 1.5)]
      | METAL_PANEL \<Rightarrow>
          [fmul (netWallArea inputs) (lit 1.05),
           fmul (fceil (fdiv (wallPerimeter inputs) (lit 3))) (wallHeight inputs),
           fmul (wallPerimeter inputs) (lit 2), fmul (netWallArea inputs) (lit 8),
           fmul (plateArea inputs) (lit 1.5)]) @
     [windowArea inputs, doorCount inputs, fmul (plateArea inputs) (lit 1.15),
      fmul (plateArea inputs) (lit 1.15), fmul (plateArea inputs) (lit 6)]"

definition defaultPrices :: "(string \<times> number) list" where
  "defaultPrices =
     [(''conc_h17'', lit 180000), (''mesh_steel'', lit 8500), (''poly_film'', lit 1200),
      (''brick_hollow'', lit 950), (''mortar_mix'', lit 350), (''plaster_mix'', lit 450),
      (''roof_struct_metal'', lit 10500),
      (''sip_panel'', lit 120000), (''sip_screws'', lit 250), (''osb_95'', lit 9500),
      (''roof_struct_wood'', lit 7500),
      (''pgc_100'', lit 8500), (''pgu_100'', lit 7200), (''insul_wall'', lit 6500),
      (''screw_t1'', lit 45),
      (''wood_2x4'', lit 4500), (''siding_wood'', lit 8500),
      (''metal_panel_wall'', lit 65000), (''tube_100x100'', lit 18000),
      (''tube_100x50'', lit 12000), (''screw_panel'', lit 250),
      (''win_dvh'', lit 250000), (''door_ext'', lit 350000),
      (''roof_sheet'', lit 22000), (''insul_roof'', lit 6500), (''screw_roof'', lit 120)]"

definition defaultPrice :: "string \<Rightarrow> number" where
  "defaultPrice i = (case map_of defaultPrices i of Some d \<Rightarrow> d | None \<Rightarrow> lit 0)"

text \<open>
  The number of \<open>Muros\<close> items of a system; the ids of the \<open>Muros\<close> items whose
  quantity is computed from the net wall area, and of the framing items, which are
  computed from the perimeter and the height; the position of a category in the order
  Platea, Muros, Aberturas, Techo.
\<close>

definition wallItemCount :: "ConstructionSystem \<Rightarrow> nat" where
  "wallItemCount system =
     (case system of TRADITIONAL \<Rightarrow> 3 | SIP \<Rightarrow> 3 | STEEL_FRAME \<Rightarrow> 5 | WOOD_FRAME \<Rightarrow> 3
      | METAL_PANEL \<Rightarrow> 4)"

definition wallAreaIds :: "string list" where
  "wallAreaIds =
     [''brick_hollow'', ''mortar_mix'', ''plaster_mix'', ''sip_panel'', ''sip_screws'',
      ''osb_95'', ''insul_wall'', ''screw_t1'', ''siding_wood'', ''metal_panel_wall'',
      ''screw_panel'']"

definition framingIds :: "string list" where
  "framingIds = [''pgc_100'', ''pgu_100'', ''wood_2x4'', ''tube_100x100'', ''tube_100x50'']"

definition categoryRank :: "category \<Rightarrow> nat" where
  "categoryRank c = (case c of Platea \<Rightarrow> 0 | Muros \<Rightarrow> 1 | Aberturas \<Rightarrow> 2 | Techo \<Rightarrow> 3)"

text \<open>
  Concrete inputs: the worked example of the specification; an override of 0 for the
  concrete; a house whose openings exceed its walls; a house whose openings equal its
  walls exactly, as real numbers; the example with a window area one unit in the last
  place above 1.65; and a perimeter of 1e308 with a wall height of 0.
\<close>

definition exampleInputs :: UserInputs where
  "exampleInputs =
     \<lparr>plateArea = lit 60, wallHeight = lit 2.6, wallPerimeter = lit 40, windowArea = lit 8,
      doorCount = lit 2\<rparr>"

definition zeroOverride :: "string \<rightharpoonup> number" where
  "zeroOverride = [''conc_h17'' \<mapsto> lit 0]"

definition clampedInputs :: UserInputs where
  "clampedInputs =
     \<lparr>plateArea = lit 60, wallHeight = lit 2, wallPerimeter = lit 4, windowArea = lit 6,
      doorCount = lit 2\<rparr>"

definition boundaryInputs :: UserInputs where
  "boundaryInputs =
     \<lparr>plateArea = lit 60, wallHeight = lit 5, wallPerimeter = lit 0.98, windowArea = lit 2.9,
      doorCount = lit 1\<rparr>"


definition overflowInputs :: UserInputs where
  "overflowInputs =
     \<lparr>plateArea = lit 60, wallHeight = lit 0, wallPerimeter = lit (10 ^ 308), windowArea = lit 8,
      doorCount = lit 2\<rparr>"

section \<open>Rounding to the nearest double\<close>

lemma rhe_floor_le: "\<lfloor>y\<rfloor> \<le> roundHalfEven y"
  by (simp add: roundHalfEven_def Let_def)

lemma rhe_le_floor1: "roundHalfEven y \<le> \<lfloor>y\<rfloor> + 1"
  by (simp add: roundHalfEven_def Let_def)

lemma rhe_of_int: "roundHalfEven (of_int n) = n"
  by (simp add: roundHalfEven_def Let_def)

lemma rhe_near:
  assumes "\<bar>y - real_of_int m\<bar> < 1 / 2"
  shows "roundHalfEven y = m"
proof (cases "real_of_int m \<le> y")
  case True
  then have "\<lfloor>y\<rfloor> = m" using assms by linarith
  then show ?thesis using assms True by (simp add: roundHalfEven_def Let_def)
next
  case False
  then have f: "\<lfloor>y\<rfloor> = m - 1" using assms by linarith
  then have "1 / 2 < y - real_of_int \<lfloor>y\<rfloor>" using assms False by simp
  then show ?thesis using f by (simp add: roundHalfEven_def Let_def)
qed

lemma rhe_tie:
  assumes "\<bar>y - real_of_int m\<bar> = 1 / 2" "even m"
  shows "roundHalfEven y = m"
proof (cases "real_of_int m \<le> y")
  case True
  then have y: "y = real_of_int m + 1 / 2" using assms by linarith
  then have "\<lfloor>y\<rfloor> = m" by linarith
  then show ?thesis using y assms(2) by (simp add: roundHalfEven_def Let_def)
next
  case False
  then have y: "y = real_of_int m - 1 / 2" using assms by linarith
  then have f: "\<lfloor>y\<rfloor> = m - 1" by linarith
  then show ?thesis using y assms(2) by (simp add: roundHalfEven_def Let_def)
qed

lemma rhe_mono:
  assumes "y \<le> z"
  shows "roundHalfEven y \<le> roundHalfEven z"
proof (cases "\<lfloor>y\<rfloor> = \<lfloor>z\<rfloor>")
  case True
  then have "y - real_of_int \<lfloor>y\<rfloor> \<le> z - real_of_int \<lfloor>z\<rfloor>" using assms by simp
  then show ?thesis using True by (auto simp add: roundHalfEven_def Let_def)
next
  case False
  then have "\<lfloor>y\<rfloor> < \<lfloor>z\<rfloor>" using assms floor_mono [of y z] by linarith
  then have "roundHalfEven y \<le> \<lfloor>z\<rfloor>" using rhe_le_floor1 [of y] by linarith
  then show ?thesis using rhe_floor_le [of z] by linarith
qed

lemma rhe_nonneg: "0 \<le> y \<Longrightarrow> 0 \<le> roundHalfEven y"
  using rhe_mono [of 0 y] rhe_of_int [of 0] by simp

lemma nat53: "nat (53 + int u) = 53 + u" and nat53': "53 + u - Suc 0 = 52 + u"
  by simp_all

lemma ulpExp_upper:
  assumes "0 \<le> X"
  shows "X < 2 ^ (53 + ulpExp X)"
proof -
  have "bitlen \<lfloor>X\<rfloor> \<le> int (53 + ulpExp X)"
    by (simp add: ulpExp_def)
  then have "\<lfloor>X\<rfloor> < 2 ^ (53 + ulpExp X)"
    by (simp add: bitlen_le_iff_power nat53)
  then have "\<lfloor>X\<rfloor> < \<lfloor>(2::real) ^ (53 + ulpExp X)\<rfloor>"
    by (metis floor_numeral floor_power of_int_numeral of_int_power)
  then show ?thesis by (simp add: floor_less_cancel)
qed

lemma ulpExp_lower:
  assumes "0 < ulpExp X"
  shows "2 ^ (52 + ulpExp X) \<le> X"
proof -
  have "int (53 + ulpExp X) \<le> bitlen \<lfloor>X\<rfloor>"
    using assms by (simp add: ulpExp_def)
  then have "2 ^ (52 + ulpExp X) \<le> \<lfloor>X\<rfloor>"
    by (simp add: bitlen_ge_iff_power nat53 nat53')
  then have "real_of_int (2 ^ (52 + ulpExp X)) \<le> real_of_int \<lfloor>X\<rfloor>"
    by (simp only: of_int_le_iff)
  then show ?thesis by (simp add: le_floor_iff)
qed

lemma ulpExp_eq:
  assumes "2 ^ (52 + u) \<le> X" "X < 2 ^ (53 + u)"
  shows "ulpExp X = u"
proof -
  have a: "(2::int) ^ (52 + u) \<le> \<lfloor>X\<rfloor>"
    using assms(1) by (simp add: le_floor_iff)
  have b: "\<lfloor>X\<rfloor> < 2 ^ (53 + u)"
    using assms(2) by (simp add: floor_less_iff)
  have "bitlen \<lfloor>X\<rfloor> = int (53 + u)"
    using a b by (intro antisym) (simp_all add: bitlen_le_iff_power bitlen_ge_iff_power nat53 nat53')
  then show ?thesis by (simp add: ulpExp_def)
qed

lemma ulpExp_eq_0:
  assumes "X < 2 ^ 53"
  shows "ulpExp X = 0"
proof -
  have "\<lfloor>X\<rfloor> < 2 ^ 53" using assms by (simp add: floor_less_iff)
  then have "bitlen \<lfloor>X\<rfloor> \<le> 53" by (simp add: bitlen_le_iff_power)
  then show ?thesis by (simp add: ulpExp_def)
qed

lemma ulpExp_mono:
  assumes "X \<le> Y"
  shows "ulpExp X \<le> ulpExp Y"
proof -
  have "nat \<lfloor>X\<rfloor> \<le> nat \<lfloor>Y\<rfloor>" using assms by (simp add: floor_mono nat_mono)
  then have "bitlen \<lfloor>X\<rfloor> \<le> bitlen \<lfloor>Y\<rfloor>"
    unfolding bitlen_def by (simp add: floorlog_mono)
  then show ?thesis by (simp add: ulpExp_def)
qed

lemma roundScaled_nonneg: "0 \<le> X \<Longrightarrow> 0 \<le> roundScaled X"
  by (simp add: roundScaled_def rhe_nonneg)

lemma roundScaled_upper:
  assumes "0 \<le> X"
  shows "roundScaled X \<le> 2 ^ (53 + ulpExp X)"
proof -
  have "X / 2 ^ ulpExp X \<le> 2 ^ 53"
    using ulpExp_upper [OF assms] by (simp add: divide_le_eq power_add)
  then have "roundHalfEven (X / 2 ^ ulpExp X) \<le> roundHalfEven (real_of_int (2 ^ 53))"
    by (intro rhe_mono) simp
  then have "roundHalfEven (X / 2 ^ ulpExp X) \<le> 2 ^ 53"
    by (simp only: rhe_of_int)
  then have "real_of_int (roundHalfEven (X / 2 ^ ulpExp X)) \<le> real_of_int (2 ^ 53)"
    by (simp only: of_int_le_iff)
  then have "real_of_int (roundHalfEven (X / 2 ^ ulpExp X)) * 2 ^ ulpExp X \<le> 2 ^ 53 * 2 ^ ulpExp X"
    by (intro mult_right_mono) simp_all
  then show ?thesis by (simp add: roundScaled_def power_add)
qed

lemma roundScaled_lower:
  assumes "0 < ulpExp X"
  shows "2 ^ (52 + ulpExp X) \<le> roundScaled X"
proof -
  have "2 ^ 52 \<le> X / 2 ^ ulpExp X"
    using ulpExp_lower [OF assms] by (simp add: le_divide_eq power_add)
  then have "roundHalfEven (real_of_int (2 ^ 52)) \<le> roundHalfEven (X / 2 ^ ulpExp X)"
    by (intro rhe_mono) simp
  then have "2 ^ 52 \<le> roundHalfEven (X / 2 ^ ulpExp X)"
    by (simp only: rhe_of_int)
  then have "real_of_int (2 ^ 52) \<le> real_of_int (roundHalfEven (X / 2 ^ ulpExp X))"
    by (simp only: of_int_le_iff)
  then have "2 ^ 52 * 2 ^ ulpExp X \<le> real_of_int (roundHalfEven (X / 2 ^ ulpExp X)) * 2 ^ ulpExp X"
    by (intro mult_right_mono) simp_all
  then show ?thesis by (simp add: roundScaled_def power_add)
qed

lemma roundScaled_mono:
  assumes "0 \<le> X" "X \<le> Y"
  shows "roundScaled X \<le> roundScaled Y"
proof (cases "ulpExp X = ulpExp Y")
  case True
  have "X / 2 ^ ulpExp Y \<le> Y / 2 ^ ulpExp Y"
    using assms(2) by (simp add: divide_right_mono)
  then have "roundHalfEven (X / 2 ^ ulpExp Y) \<le> roundHalfEven (Y / 2 ^ ulpExp Y)"
    by (rule rhe_mono)
  then have "real_of_int (roundHalfEven (X / 2 ^ ulpExp Y)) * 2 ^ ulpExp Y
      \<le> real_of_int (roundHalfEven (Y / 2 ^ ulpExp Y)) * 2 ^ ulpExp Y"
    by (intro mult_right_mono) simp_all
  then show ?thesis by (simp add: roundScaled_def True)
next
  case False
  then have lt: "ulpExp X < ulpExp Y"
    using ulpExp_mono [OF assms(2)] by simp
  have "roundScaled X \<le> 2 ^ (53 + ulpExp X)"
    using assms(1) by (rule roundScaled_upper)
  also have "(2::real) ^ (53 + ulpExp X) \<le> 2 ^ (52 + ulpExp Y)"
    using lt by (intro power_increasing) simp_all
  also have "\<dots> \<le> roundScaled Y"
    using lt by (intro roundScaled_lower) simp
  finally show ?thesis .
qed

lemma roundScaled_cert:
  assumes "2 ^ (52 + u) \<le> X" "X < 2 ^ (53 + u)"
    and "\<bar>X / 2 ^ u - real_of_int m\<bar> < 1 / 2 \<or> \<bar>X / 2 ^ u - real_of_int m\<bar> = 1 / 2 \<and> even m"
  shows "roundScaled X = real_of_int m * 2 ^ u"
proof -
  have u: "ulpExp X = u" using assms(1,2) by (rule ulpExp_eq)
  have "roundHalfEven (X / 2 ^ u) = m"
    using assms(3) by (auto intro: rhe_near rhe_tie)
  then show ?thesis by (simp add: roundScaled_def u)
qed

lemma roundScaled_cert0:
  assumes "X < 2 ^ 53"
    and "\<bar>X - real_of_int m\<bar> < 1 / 2 \<or> \<bar>X - real_of_int m\<bar> = 1 / 2 \<and> even m"
  shows "roundScaled X = real_of_int m"
proof -
  have u: "ulpExp X = 0" using assms(1) by (rule ulpExp_eq_0)
  have "roundHalfEven X = m"
    using assms(2) by (auto intro: rhe_near rhe_tie)
  then show ?thesis by (simp add: roundScaled_def u)
qed

lemmas toNumber_alt = toNumber_def

lemma magnitude_nonneg: "0 \<le> magnitude x"
  by (simp add: magnitude_def roundScaled_nonneg)

lemma magnitude_mono: "\<bar>x\<bar> \<le> \<bar>y\<bar> \<Longrightarrow> magnitude x \<le> magnitude y"
  unfolding magnitude_def
  by (intro divide_right_mono roundScaled_mono mult_right_mono) simp_all

lemma toNumber_not_NaN: "toNumber x \<noteq> NaN"
  by (simp add: toNumber_alt)

lemma toNumber_mono:
  assumes "x \<le> y"
  shows "fle (toNumber x) (toNumber y)"
proof -
  consider "y < 0" | "x < 0" "0 \<le> y" | "0 \<le> x" by linarith
  then show ?thesis
  proof cases
    case 1
    then have "magnitude y \<le> magnitude x" using assms by (intro magnitude_mono) simp
    then show ?thesis using 1 assms by (simp add: toNumber_alt)
  next
    case 2
    then show ?thesis
      using magnitude_nonneg [of x] magnitude_nonneg [of y] by (simp add: toNumber_alt)
  next
    case 3
    then have "magnitude x \<le> magnitude y" using assms by (intro magnitude_mono) simp
    then show ?thesis using 3 assms by (simp add: toNumber_alt)
  qed
qed

lemma roundScaled_fix:
  assumes "(2::int) ^ ulpExp (real_of_int N) dvd N"
  shows "roundScaled (real_of_int N) = real_of_int N"
proof -
  define u where "u = ulpExp (real_of_int N)"
  from assms obtain q where q: "N = 2 ^ u * q" unfolding u_def by (auto elim: dvdE)
  have "real_of_int N = 2 ^ u * real_of_int q"
    by (subst q) simp
  then have d: "real_of_int N / 2 ^ u = real_of_int q" and m: "real_of_int q * 2 ^ u = real_of_int N"
    by simp_all
  have "roundScaled (real_of_int N) = real_of_int (roundHalfEven (real_of_int N / 2 ^ u)) * 2 ^ u"
    by (simp add: roundScaled_def u_def)
  also have "\<dots> = real_of_int q * 2 ^ u"
    by (simp only: d rhe_of_int)
  finally show ?thesis by (simp only: m)
qed

lemma ulpExp_le:
  assumes "X < 2 ^ (53 + j)"
  shows "ulpExp X \<le> j"
proof (rule ccontr)
  assume "\<not> ulpExp X \<le> j"
  then have lt: "j < ulpExp X" by simp
  then have "(2::real) ^ (52 + ulpExp X) \<le> X" by (intro ulpExp_lower) simp
  moreover have "(2::real) ^ (53 + j) \<le> 2 ^ (52 + ulpExp X)"
    using lt by (intro power_increasing) simp_all
  ultimately show False using assms by linarith
qed

lemma roundScaled_dyadic:
  assumes "n < 2 ^ 53"
  shows "roundScaled (real_of_int n * 2 ^ j) = real_of_int n * 2 ^ j"
proof -
  let ?N = "n * 2 ^ j"
  have r: "real_of_int ?N = real_of_int n * 2 ^ j" by simp
  have "real_of_int n < 2 ^ 53"
    using assms by (metis of_int_less_iff of_int_numeral of_int_power)
  then have "real_of_int n * 2 ^ j < 2 ^ 53 * 2 ^ j"
    by (intro mult_strict_right_mono) simp_all
  then have "real_of_int ?N < 2 ^ (53 + j)"
    by (simp add: power_add)
  then have "ulpExp (real_of_int ?N) \<le> j"
    by (rule ulpExp_le)
  then have "(2::int) ^ ulpExp (real_of_int ?N) dvd 2 ^ j"
    by (simp add: le_imp_power_dvd)
  then have "(2::int) ^ ulpExp (real_of_int ?N) dvd ?N"
    by (rule dvd_mult)
  then have "roundScaled (real_of_int ?N) = real_of_int ?N"
    by (rule roundScaled_fix)
  then show ?thesis by (simp only: r)
qed

lemma magnitude_dyadic:
  assumes "0 \<le> n" "n < 2 ^ 53" "k \<le> minExp"
  shows "magnitude (real_of_int n / 2 ^ k) = real_of_int n / 2 ^ k"
proof -
  have p: "(2::real) ^ minExp = 2 ^ k * 2 ^ (minExp - k)"
    using assms(3) by (simp flip: power_add)
  have "\<bar>real_of_int n / 2 ^ k\<bar> * 2 ^ minExp = real_of_int n * 2 ^ (minExp - k)"
    using assms(1) by (simp add: p)
  then have "magnitude (real_of_int n / 2 ^ k) = real_of_int n * 2 ^ (minExp - k) / 2 ^ minExp"
    by (simp add: magnitude_def roundScaled_dyadic [OF assms(2)])
  also have "\<dots> = real_of_int n / 2 ^ k"
    by (simp add: p)
  finally show ?thesis .
qed

lemma toNumber_dyadic:
  assumes "\<bar>n\<bar> < 2 ^ 53" "k \<le> minExp"
  shows "toNumber (real_of_int n / 2 ^ k) = Fin (real_of_int n / 2 ^ k)"
proof -
  have "magnitude (real_of_int n / 2 ^ k) = magnitude (real_of_int \<bar>n\<bar> / 2 ^ k)"
    by (simp add: magnitude_def)
  then have m: "magnitude (real_of_int n / 2 ^ k) = real_of_int \<bar>n\<bar> / 2 ^ k"
    using magnitude_dyadic [of "\<bar>n\<bar>" k] assms by simp
  have a: "real_of_int \<bar>n\<bar> < 2 ^ 53"
    using assms(1) by (metis of_int_less_iff of_int_numeral of_int_power)
  have "real_of_int \<bar>n\<bar> / 2 ^ k \<le> real_of_int \<bar>n\<bar> / 1"
    by (intro divide_left_mono) simp_all
  then have "real_of_int \<bar>n\<bar> / 2 ^ k < 2 ^ 53"
    using a by simp
  also have "(2::real) ^ 53 \<le> 2 ^ maxExp"
    by (intro power_increasing) (simp_all add: maxExp_def)
  finally have b: "\<not> 2 ^ maxExp \<le> real_of_int \<bar>n\<bar> / 2 ^ k" by simp
  show ?thesis
  proof (cases "n < 0")
    case True
    then have "real_of_int n / 2 ^ k < 0" by (simp add: divide_less_0_iff)
    moreover have "- (real_of_int \<bar>n\<bar> / 2 ^ k) = real_of_int n / 2 ^ k" using True by simp
    ultimately show ?thesis using b by (simp only: toNumber_def m if_True if_False)
  next
    case False
    then have "\<not> real_of_int n / 2 ^ k < 0" by (simp add: divide_less_0_iff)
    moreover have "real_of_int \<bar>n\<bar> / 2 ^ k = real_of_int n / 2 ^ k" using False by simp
    ultimately show ?thesis using b by (simp only: toNumber_def m if_True if_False)
  qed
qed

lemma toNumber_of_int: "\<bar>n\<bar> < 2 ^ 53 \<Longrightarrow> toNumber (real_of_int n) = Fin (real_of_int n)"
  using toNumber_dyadic [of n 0] by simp

lemma toNumber_numeral:
  "numeral w < (2::int) ^ 53 \<Longrightarrow> toNumber (numeral w) = Fin (numeral w)"
  using toNumber_of_int [of "numeral w"] by simp

lemma toNumber_zero: "toNumber 0 = Fin 0"
  using toNumber_of_int [of 0] by simp

lemma magnitude_cert:
  assumes "k \<le> minExp" "0 \<le> x" "2 ^ 52 \<le> x * 2 ^ k" "x * 2 ^ k < 2 ^ 53"
    and "\<bar>x * 2 ^ k - real_of_int m\<bar> < 1 / 2
         \<or> \<bar>x * 2 ^ k - real_of_int m\<bar> = 1 / 2 \<and> even m"
  shows "magnitude x = real_of_int m / 2 ^ k"
proof -
  define u where "u = minExp - k"
  have p: "(2::real) ^ minExp = 2 ^ k * 2 ^ u"
    using assms(1) by (simp add: u_def flip: power_add)
  have X: "\<bar>x\<bar> * 2 ^ minExp = x * 2 ^ k * 2 ^ u"
    using assms(2) by (simp add: p)
  have lo: "2 ^ (52 + u) \<le> x * 2 ^ k * 2 ^ u"
    using assms(3) by (simp add: power_add)
  have hi: "x * 2 ^ k * 2 ^ u < 2 ^ (53 + u)"
    using assms(4) by (simp add: power_add)
  have "roundScaled (x * 2 ^ k * 2 ^ u) = real_of_int m * 2 ^ u"
    using lo hi by (rule roundScaled_cert) (use assms(5) in simp)
  then have "magnitude x = real_of_int m * 2 ^ u / 2 ^ minExp"
    by (simp add: magnitude_def X)
  also have "\<dots> = real_of_int m / 2 ^ k"
    by (simp add: p)
  finally show ?thesis .
qed

lemma toNumber_cert:
  assumes "k \<le> minExp" "0 \<le> x" "2 ^ 52 \<le> x * 2 ^ k" "x * 2 ^ k < 2 ^ 53"
    and "\<bar>x * 2 ^ k - real_of_int m\<bar> < 1 / 2
         \<or> \<bar>x * 2 ^ k - real_of_int m\<bar> = 1 / 2 \<and> even m"
  shows "toNumber x = Fin (real_of_int m / 2 ^ k)"
proof -
  have m: "magnitude x = real_of_int m / 2 ^ k"
    using assms by (rule magnitude_cert)
  have "real_of_int m \<le> x * 2 ^ k + 1 / 2" using assms(5) by linarith
  then have "real_of_int m < real_of_int (2 ^ 53 + 1)" using assms(4) by simp
  then have "m < 2 ^ 53 + 1" by (simp only: of_int_less_iff)
  then have "m \<le> 2 ^ 53" by simp
  then have "real_of_int m \<le> real_of_int (2 ^ 53)" by (simp only: of_int_le_iff)
  then have "real_of_int m \<le> 2 ^ 53" by simp
  moreover have "(1::real) \<le> 2 ^ 52" by simp
  then have "0 \<le> real_of_int m" using assms(3,5) by linarith
  then have "real_of_int m / 2 ^ k \<le> real_of_int m / 1"
    by (intro divide_left_mono) simp_all
  moreover have "(2::real) ^ 53 < 2 ^ maxExp"
    by (intro power_strict_increasing) (simp_all add: maxExp_def)
  ultimately have "\<not> 2 ^ maxExp \<le> real_of_int m / 2 ^ k" by linarith
  then show ?thesis using assms(2) by (simp add: toNumber_def m)
qed

lemma magnitude_int_pow:
  assumes "0 \<le> n" "n < 2 ^ 53"
  shows "magnitude (real_of_int n * 2 ^ j) = real_of_int n * 2 ^ j"
proof -
  have "\<bar>real_of_int n * 2 ^ j\<bar> * 2 ^ minExp = real_of_int n * 2 ^ (j + minExp)"
    using assms(1) by (simp add: power_add)
  then show ?thesis
    by (simp add: magnitude_def roundScaled_dyadic [OF assms(2)]) (simp add: power_add)
qed

lemma magnitude_pow: "magnitude (2 ^ j) = 2 ^ j"
  using magnitude_int_pow [of 1 j] by simp

lemma toNumber_overflow:
  assumes "2 ^ maxExp \<le> x"
  shows "toNumber x = PosInf"
proof -
  have "\<bar>(2::real) ^ maxExp\<bar> \<le> \<bar>x\<bar>" using assms by simp
  then have "magnitude (2 ^ maxExp) \<le> magnitude x" by (rule magnitude_mono)
  then have "2 ^ maxExp \<le> magnitude x" by (simp only: magnitude_pow)
  moreover have "(0::real) < 2 ^ maxExp" by simp
  then have "\<not> x < 0" using assms by linarith
  ultimately show ?thesis by (simp add: toNumber_def)
qed

lemma toNumber_bounded:
  assumes "0 \<le> x" "x \<le> 2 ^ j" "j < maxExp"
  shows "\<exists>r. toNumber x = Fin r \<and> 0 \<le> r \<and> r \<le> 2 ^ j"
proof -
  have "\<bar>x\<bar> \<le> \<bar>(2::real) ^ j\<bar>" using assms by simp
  then have "magnitude x \<le> magnitude (2 ^ j)" by (rule magnitude_mono)
  then have le: "magnitude x \<le> 2 ^ j" by (simp only: magnitude_pow)
  have "(2::real) ^ j < 2 ^ maxExp"
    using assms(3) by (intro power_strict_increasing) simp_all
  then have "\<not> 2 ^ maxExp \<le> magnitude x" using le by linarith
  then have "toNumber x = Fin (magnitude x)" using assms(1) by (simp add: toNumber_def)
  then show ?thesis using le magnitude_nonneg [of x] by blast
qed

lemma toNumber_nonneg: "0 \<le> x \<Longrightarrow> fle (Fin 0) (toNumber x)"
  using toNumber_mono [of 0 x] by (simp add: toNumber_zero)


lemma lit_zero: "lit 0 = Fin 0"
  by (simp add: lit_def toNumber_zero)

lemma lit_numeral: "numeral w < (2::int) ^ 53 \<Longrightarrow> lit (numeral w) = Fin (numeral w)"
  by (simp add: lit_def toNumber_numeral)

lemma fle_Fin_0_iff: "fle (Fin 0) x \<longleftrightarrow> x = PosInf \<or> (\<exists>a. x = Fin a \<and> 0 \<le> a)"
  by (cases x) simp_all

lemma fle_refl_iff: "fle x x \<longleftrightarrow> x \<noteq> NaN"
  by (cases x) simp_all

lemma fle_NaN [simp]: "\<not> fle x NaN"
  by (cases x) simp_all

lemma fle_PosInf [simp]: "fle x PosInf \<longleftrightarrow> x \<noteq> NaN"
  by (cases x) simp_all

lemma fle_NegInf [simp]: "fle NegInf y \<longleftrightarrow> y \<noteq> NaN"
  by (cases y) simp_all

lemma fmul_mono:
  assumes "0 < c" "fle x y"
  shows "fle (fmul x (Fin c)) (fmul y (Fin c))"
proof (cases x)
  case (Fin a)
  show ?thesis
  proof (cases y)
    case (Fin b)
    then have "a * c \<le> b * c" using assms \<open>x = Fin a\<close> by simp
    then show ?thesis using Fin \<open>x = Fin a\<close> by (simp add: toNumber_mono)
  qed (use assms Fin in \<open>simp_all add: toNumber_not_NaN\<close>)
next
  case NegInf
  then show ?thesis using assms by (cases y) (simp_all add: toNumber_not_NaN)
next
  case PosInf
  then show ?thesis using assms by (cases y) simp_all
qed (use assms in simp)

lemma fdiv_mono:
  assumes "0 < c" "fle x y"
  shows "fle (fdiv x (Fin c)) (fdiv y (Fin c))"
proof (cases x)
  case (Fin a)
  show ?thesis
  proof (cases y)
    case (Fin b)
    then have "a / c \<le> b / c" using assms \<open>x = Fin a\<close> by (simp add: divide_right_mono)
    then show ?thesis using Fin \<open>x = Fin a\<close> assms(1) by (simp add: toNumber_mono)
  qed (use assms Fin in \<open>simp_all add: toNumber_not_NaN\<close>)
next
  case NegInf
  then show ?thesis using assms by (cases y) (simp_all add: toNumber_not_NaN)
next
  case PosInf
  then show ?thesis using assms by (cases y) simp_all
qed (use assms in simp)

lemma fceil_mono:
  assumes "fle x y"
  shows "fle (fceil x) (fceil y)"
  using assms by (cases x; cases y) (simp_all add: ceiling_mono)

section \<open>The literals of the source\<close>

text \<open>
  Each decimal literal with its double, certified by the bound on the distance to the
  real the literal denotes.
\<close>

lemma lit_0_12: "lit 0.12 = Fin (8646911284551352 / 2 ^ 56)"
  unfolding lit_def
  using toNumber_cert [of 56 "0.12" 8646911284551352] by (simp add: minExp_def)

lemma lit_1_10: "lit 1.10 = Fin (4953959590107546 / 2 ^ 52)"
  unfolding lit_def
  using toNumber_cert [of 52 "1.10" 4953959590107546] by (simp add: minExp_def)

lemma lit_1_15: "lit 1.15 = Fin (5179139571476070 / 2 ^ 52)"
  unfolding lit_def
  using toNumber_cert [of 52 "1.15" 5179139571476070] by (simp add: minExp_def)

lemma lit_1_05: "lit 1.05 = Fin (4728779608739021 / 2 ^ 52)"
  unfolding lit_def
  using toNumber_cert [of 52 "1.05" 4728779608739021] by (simp add: minExp_def)

lemma lit_2_97: "lit 2.97 = Fin (6687845446645187 / 2 ^ 51)"
  unfolding lit_def
  using toNumber_cert [of 51 "2.97" 6687845446645187] by (simp add: minExp_def)

lemma lit_0_40: "lit 0.40 = Fin (7205759403792794 / 2 ^ 54)"
  unfolding lit_def
  using toNumber_cert [of 54 "0.40" 7205759403792794] by (simp add: minExp_def)

lemma lit_1_5: "lit 1.5 = Fin (6755399441055744 / 2 ^ 52)"
  unfolding lit_def
  using toNumber_cert [of 52 "1.5" 6755399441055744] by (simp add: minExp_def)

lemma lit_15_5: "lit 15.5 = Fin (8725724278030336 / 2 ^ 49)"
  unfolding lit_def
  using toNumber_cert [of 49 "15.5" 8725724278030336] by (simp add: minExp_def)

lemma lit_1_1: "lit 1.1 = Fin (4953959590107546 / 2 ^ 52)"
  unfolding lit_def
  using toNumber_cert [of 52 "1.1" 4953959590107546] by (simp add: minExp_def)

section \<open>The result, field by field\<close>

lemmas calc_defs = calculateMaterials_def addMat_def Let_def

lemma ids_of_result: "map idM (calculateMaterials inputs system prices) = materialIds system"
  by (cases system) (simp_all add: calc_defs materialIds_def)

lemma categories_of_result:
  "map category (calculateMaterials inputs system prices) =
     replicate 3 Platea @ replicate (wallItemCount system) Muros @ [Techo] @
     replicate 2 Aberturas @ replicate 3 Techo"
  by (cases system) (simp_all add: calc_defs wallItemCount_def numeral_eq_Suc)

lemma quantities_of_result:
  "map quantity (calculateMaterials inputs system prices) =
     map finalQty (rawQuantities inputs system)"
  by (cases system) (simp_all add: calc_defs rawQuantities_def)

lemma prices_of_result:
  "map unitPrice (calculateMaterials inputs system prices) =
     map (\<lambda>i. priceOr (prices i) (defaultPrice i)) (materialIds system)"
  by (cases system) (simp_all add: calc_defs materialIds_def defaultPrice_def defaultPrices_def)

lemma defaultPrices_pos: "list_all (\<lambda>i. flt (lit 0) (defaultPrice i)) (materialIds system)"
  by (cases system)
     (simp_all add: materialIds_def defaultPrice_def defaultPrices_def lit_numeral lit_zero)

lemma map_eq_on_member:
  "map g xs = map f (map h xs) \<Longrightarrow> x \<in> set xs \<Longrightarrow> g x = f (h x)"
  by (induction xs) auto

lemma unitPrice_of_item:
  assumes "m \<in> set (calculateMaterials inputs system prices)"
  shows "unitPrice m = priceOr (prices (idM m)) (defaultPrice (idM m))"
proof -
  have "map unitPrice (calculateMaterials inputs system prices) =
     map (\<lambda>i. priceOr (prices i) (defaultPrice i))
       (map idM (calculateMaterials inputs system prices))"
    by (simp only: prices_of_result ids_of_result)
  then show ?thesis using assms by (rule map_eq_on_member)
qed

lemma idM_of_item:
  "m \<in> set (calculateMaterials inputs system prices) \<Longrightarrow> idM m \<in> set (materialIds system)"
  using ids_of_result [of inputs system prices] by (metis image_eqI set_map)

lemma defaultPrice_pos: "i \<in> set (materialIds system) \<Longrightarrow> flt (lit 0) (defaultPrice i)"
  using defaultPrices_pos [of system] by (simp add: list_all_iff)

lemma ranks_const:
  "\<forall>c\<in>set b. c = k \<Longrightarrow> map categoryRank b = replicate (length b) (categoryRank k)"
  by (induction b) simp_all

lemma blocks_sorted:
  assumes "\<forall>c\<in>set b1. c = Platea" "\<forall>c\<in>set b2. c = Muros"
    "\<forall>c\<in>set b3. c = Aberturas" "\<forall>c\<in>set b4. c = Techo"
  shows "sorted (map categoryRank (b1 @ b2 @ b3 @ b4))"
proof -
  note e = assms [THEN ranks_const]
  show ?thesis
    unfolding map_append e
    by (auto simp add: sorted_append categoryRank_def)
qed

section \<open>Monotonicity and sign of the operations\<close>

lemma lit_100: "lit 100 = Fin 100"
  by (simp add: lit_numeral)

lemma finalQty_mono:
  assumes "fle x y"
  shows "fle (finalQty x) (finalQty y)"
  unfolding finalQty_def lit_100
  by (intro fdiv_mono fceil_mono fmul_mono assms) simp_all

lemma finalQty_fmul_mono:
  assumes "lit c = Fin c'" "0 < c'" "fle x y"
  shows "fle (finalQty (fmul x (lit c))) (finalQty (fmul y (lit c)))"
  unfolding assms(1) by (intro finalQty_mono fmul_mono assms)

lemma finalQty_zero: "finalQty (Fin 0) = Fin 0"
  by (simp add: finalQty_def lit_100 toNumber_zero)

lemma fmul_zero_Fin: "fmul (Fin 0) (Fin c) = Fin 0"
  by (simp add: toNumber_zero)

text \<open>Not negative: NaN, or at least 0.\<close>

lemma not_flt_0_iff:
  "\<not> flt x (Fin 0) \<longleftrightarrow> x = NaN \<or> x = PosInf \<or> (\<exists>a. x = Fin a \<and> 0 \<le> a)"
  by (cases x) auto

lemma not_neg_toNumber: "0 \<le> a \<Longrightarrow> \<not> flt (toNumber a) (Fin 0)"
  using toNumber_nonneg [of a] by (auto simp add: fle_Fin_0_iff)

lemma not_neg_fmul:
  assumes "\<not> flt x (Fin 0)" "\<not> flt y (Fin 0)"
  shows "\<not> flt (fmul x y) (Fin 0)"
  using assms unfolding not_flt_0_iff [of x] not_flt_0_iff [of y]
  by (auto simp add: not_neg_toNumber split: if_splits)

lemma not_neg_fadd:
  assumes "\<not> flt x (Fin 0)" "\<not> flt y (Fin 0)"
  shows "\<not> flt (fadd x y) (Fin 0)"
  using assms unfolding not_flt_0_iff [of x] not_flt_0_iff [of y]
  by (auto simp add: not_neg_toNumber)

lemma not_neg_fdiv:
  assumes "\<not> flt x (Fin 0)" "0 < c"
  shows "\<not> flt (fdiv x (Fin c)) (Fin 0)"
  using assms unfolding not_flt_0_iff [of x]
  by (auto simp add: not_neg_toNumber split: if_splits)

lemma not_neg_fceil:
  assumes "\<not> flt x (Fin 0)"
  shows "\<not> flt (fceil x) (Fin 0)"
  using assms unfolding not_flt_0_iff [of x]
  by (auto simp add: ceiling_le_iff not_less intro: order_trans)

lemma not_neg_finalQty:
  assumes "\<not> flt x (Fin 0)"
  shows "\<not> flt (finalQty x) (Fin 0)"
  unfolding finalQty_def lit_100
  by (intro not_neg_fdiv not_neg_fceil not_neg_fmul assms) simp_all

lemma not_neg_fmax: "\<not> flt (fmax (Fin 0) x) (Fin 0)"
  by (cases x) (simp_all add: fmax_def)

lemma not_neg_of_fle: "fle (Fin 0) x \<Longrightarrow> \<not> flt x (Fin 0)"
  by (cases x) simp_all

lemma unchanged_netWallArea: "netWallArea (inputs\<lparr>plateArea := a\<rparr>) = netWallArea inputs"
  by (simp add: netWallArea_def grossWallArea_def)

lemma fmax_clamped:
  assumes "fle x (Fin 0)"
  shows "fmax (Fin 0) x = Fin 0"
  using assms by (cases x) (auto simp add: fmax_def)

lemma net_quantity_zero:
  assumes "lit c = Fin c'"
  shows "finalQty (fmul (Fin 0) (lit c)) = Fin 0"
  by (simp add: assms toNumber_zero finalQty_zero)

lemma int_lits: "lit 2 = Fin 2" "lit 3 = Fin 3" "lit 6 = Fin 6" "lit 8 = Fin 8" "lit 10 = Fin 10"
  "lit 25 = Fin 25" "lit 30 = Fin 30" "lit 35 = Fin 35"
  by (simp_all add: lit_numeral)

lemma rawQuantities_not_negative:
  assumes "fle (lit 0) (plateArea inputs)" "fle (lit 0) (wallHeight inputs)"
    "fle (lit 0) (wallPerimeter inputs)" "fle (lit 0) (windowArea inputs)"
    "fle (lit 0) (doorCount inputs)"
  shows "list_all (\<lambda>q. \<not> flt q (Fin 0)) (rawQuantities inputs system)"
proof -
  note i = assms [unfolded lit_zero, THEN not_neg_of_fle]
  have n: "\<not> flt (netWallArea inputs) (Fin 0)"
    by (simp add: netWallArea_def lit_zero not_neg_fmax)
  show ?thesis
    unfolding rawQuantities_def lit_0_12 lit_1_10 lit_1_15 lit_1_05 lit_2_97 lit_0_40 lit_1_5
      lit_15_5 lit_1_1 int_lits
    by (cases system)
       (simp_all add: i n not_neg_fmul not_neg_fadd not_neg_fdiv not_neg_fceil)
qed


lemma nonneg_toNumber: "0 \<le> a \<Longrightarrow> fle (Fin 0) (toNumber a)"
  by (rule toNumber_nonneg)

lemma nonneg_fmul_Fin: "0 \<le> a \<Longrightarrow> 0 \<le> b \<Longrightarrow> fle (Fin 0) (fmul (Fin a) (Fin b))"
  by (simp add: toNumber_nonneg)

lemma nonneg_fmul_pos:
  assumes "fle (Fin 0) x" "0 < c"
  shows "fle (Fin 0) (fmul x (Fin c))"
  using assms unfolding fle_Fin_0_iff [of x] by (auto simp add: toNumber_nonneg)

lemma nonneg_fdiv_pos:
  assumes "fle (Fin 0) x" "0 < c"
  shows "fle (Fin 0) (fdiv x (Fin c))"
  using assms unfolding fle_Fin_0_iff [of x] by (auto simp add: toNumber_nonneg)

lemma nonneg_fadd:
  assumes "fle (Fin 0) x" "fle (Fin 0) y"
  shows "fle (Fin 0) (fadd x y)"
  using assms unfolding fle_Fin_0_iff [of x] fle_Fin_0_iff [of y]
  by (auto simp add: toNumber_nonneg)

lemma nonneg_fceil:
  assumes "fle (Fin 0) x"
  shows "fle (Fin 0) (fceil x)"
  using assms unfolding fle_Fin_0_iff [of x]
  by (auto simp add: ceiling_le_iff not_less intro: order_trans)

lemma nonneg_finalQty:
  assumes "fle (Fin 0) x"
  shows "fle (Fin 0) (finalQty x)"
  unfolding finalQty_def lit_100
  by (intro nonneg_fdiv_pos nonneg_fceil nonneg_fmul_pos assms) simp_all

lemma nonneg_fmax: "x \<noteq> NaN \<Longrightarrow> fle (Fin 0) (fmax (Fin 0) x)"
  by (cases x) (simp_all add: fmax_def)

lemma fsub_Fin_not_NaN: "x \<noteq> NaN \<Longrightarrow> fsub x (Fin b) \<noteq> NaN"
  by (cases x) (simp_all add: toNumber_not_NaN)

text \<open>A field between 0 and 1e300 is a finite number below \<open>2 ^ 997\<close>.\<close>

lemma bounded_field:
  assumes "fle (lit 0) x" "fle x (lit (10 ^ 300))"
  obtains a where "x = Fin a" "0 \<le> a" "a \<le> 2 ^ 997"
proof -
  have "(10::real) ^ 300 \<le> 2 ^ 997" by simp
  then obtain r where r: "toNumber (10 ^ 300) = Fin r" "r \<le> 2 ^ 997"
    using toNumber_bounded [of "10 ^ 300" 997] by (auto simp add: maxExp_def)
  from assms(1) have "x = PosInf \<or> (\<exists>a. x = Fin a \<and> 0 \<le> a)"
    by (simp add: lit_zero fle_Fin_0_iff)
  moreover have "x \<noteq> PosInf" using assms(2) unfolding lit_def r(1) by auto
  ultimately obtain a where a: "x = Fin a" "0 \<le> a" by blast
  have "a \<le> r" using assms(2) unfolding lit_def r(1) a(1) by simp
  then have "a \<le> 2 ^ 997" using r(2) by (rule order_trans)
  with a show ?thesis by (rule that)
qed

lemma finite_quotient:
  assumes "0 \<le> a" "a \<le> 2 ^ 997" "1 / 4 \<le> c"
  obtains r where "fceil (fdiv (Fin a) (Fin c)) = Fin r" "0 \<le> r"
proof -
  have c: "0 < c" using assms(3) by simp
  have "a / c \<le> a / (1 / 4)"
    using assms(1,3) by (intro divide_left_mono) simp_all
  also have "\<dots> \<le> 2 ^ 999" using assms(2) by simp
  finally have "a / c \<le> 2 ^ 999" .
  moreover have "0 \<le> a / c" using assms(1) c by simp
  ultimately obtain q where q: "toNumber (a / c) = Fin q" "0 \<le> q"
    using toNumber_bounded [of "a / c" 999] by (auto simp add: maxExp_def)
  have "0 \<le> real_of_int \<lceil>q\<rceil>" using q(2) by (simp add: ceiling_le_iff not_less order_trans)
  then show ?thesis using q c that by simp
qed

lemma finite_double:
  assumes "0 \<le> a" "a \<le> 2 ^ 997"
  obtains e where "fmul (Fin a) (Fin 2) = Fin e" "0 \<le> e"
proof -
  have "a * 2 \<le> 2 ^ 998" using assms(2) by simp
  moreover have "0 \<le> a * 2" using assms(1) by simp
  ultimately obtain e where "toNumber (a * 2) = Fin e" "0 \<le> e"
    using toNumber_bounded [of "a * 2" 998] by (auto simp add: maxExp_def)
  then show ?thesis using that by simp
qed

lemma rawQuantities_nonneg:
  assumes lo: "fle (lit 0) (plateArea inputs)" "fle (lit 0) (wallHeight inputs)"
    "fle (lit 0) (wallPerimeter inputs)" "fle (lit 0) (windowArea inputs)"
    "fle (lit 0) (doorCount inputs)"
    and hi: "fle (plateArea inputs) (lit (10 ^ 300))" "fle (wallHeight inputs) (lit (10 ^ 300))"
    "fle (wallPerimeter inputs) (lit (10 ^ 300))" "fle (windowArea inputs) (lit (10 ^ 300))"
    "fle (doorCount inputs) (lit (10 ^ 300))"
  shows "list_all (\<lambda>q. fle (Fin 0) q) (rawQuantities inputs system)"
proof -
  from lo(1) hi(1) obtain pa where pa: "plateArea inputs = Fin pa" "0 \<le> pa"
    by (rule bounded_field)
  from lo(2) hi(2) obtain h where h: "wallHeight inputs = Fin h" "0 \<le> h"
    by (rule bounded_field)
  from lo(3) hi(3) obtain p where p: "wallPerimeter inputs = Fin p" "0 \<le> p" "p \<le> 2 ^ 997"
    by (rule bounded_field)
  from lo(4) hi(4) obtain w where w: "windowArea inputs = Fin w" "0 \<le> w"
    by (rule bounded_field)
  from lo(5) hi(5) obtain d where d: "doorCount inputs = Fin d" "0 \<le> d" "d \<le> 2 ^ 997"
    by (rule bounded_field)
  obtain e where e: "fmul (Fin d) (Fin 2) = Fin e"
    using d(2,3) by (rule finite_double)
  have "fsub (fsub (fmul (Fin p) (Fin h)) (Fin w)) (Fin e) \<noteq> NaN"
    by (intro fsub_Fin_not_NaN) (simp add: toNumber_not_NaN)
  then have n: "fle (Fin 0) (netWallArea inputs)"
    unfolding netWallArea_def grossWallArea_def lit_zero int_lits p(1) h(1) w(1) d(1) e
    by (rule nonneg_fmax)
  have "1 / 4 \<le> (7205759403792794 / 2 ^ 54 :: real)" by simp
  from finite_quotient [OF p(2,3) this]
  obtain mc where mc: "fceil (fdiv (Fin p) (Fin (7205759403792794 / 2 ^ 54))) = Fin mc" "0 \<le> mc"
    by blast
  have "1 / 4 \<le> (3 :: real)" by simp
  from finite_quotient [OF p(2,3) this]
  obtain cl where cl: "fceil (fdiv (Fin p) (Fin 3)) = Fin cl" "0 \<le> cl"
    by blast
  note lits = lit_0_12 lit_1_10 lit_1_15 lit_1_05 lit_2_97 lit_0_40 lit_1_5 lit_15_5 lit_1_1
    int_lits
  show ?thesis
    unfolding rawQuantities_def p(1) h(1) pa(1) lits
    unfolding mc(1) cl(1)
    using n pa(2) h(2) p(2) w d(1,2) mc(2) cl(2)
    by (cases system)
       (simp_all add: nonneg_fmul_pos nonneg_fmul_Fin nonneg_fadd nonneg_fdiv_pos toNumber_nonneg)
qed

section \<open>The rounding error\<close>







lemma lit_0_01: "lit 0.01 = Fin (5764607523034235 / 2 ^ 59)"
  unfolding lit_def
  using toNumber_cert [of 59 "0.01" 5764607523034235] by (simp add: minExp_def)



section \<open>Evaluations\<close>

text \<open>
  The values of the source expressions at the concrete inputs, one rounding at a time:
  each step names the double that the exact result rounds to.
\<close>

lemma toNumber_neg_numeral:
  "numeral w < (2::int) ^ 53 \<Longrightarrow> toNumber (- numeral w) = Fin (- numeral w)"
  using toNumber_of_int [of "- numeral w"] by simp

lemma lit_one: "lit 1 = Fin 1"
  using toNumber_of_int [of 1] by (simp add: lit_def)

lemma ev_conc_example: "finalQty (fmul (plateArea exampleInputs) (lit 0.12)) = lit 7.20"
proof -
  have s1: "plateArea exampleInputs = Fin 60"
    by (simp add: exampleInputs_def lit_numeral lit_one)
  have s2: "lit 0.12 = Fin (8646911284551352 / 2 ^ 56)"
    unfolding lit_def using toNumber_cert [of 56 "0.12" 8646911284551352] by (simp add: minExp_def)
  have s3: "fmul (Fin 60) (Fin (8646911284551352 / 2 ^ 56)) = Fin (8106479329266892 / 2 ^ 50)"
    using toNumber_cert [of 50 "60 * (8646911284551352 / 2 ^ 56)" 8106479329266892] by (simp add: minExp_def)
  have s4: "lit 100 = Fin 100"
    by (simp add: lit_numeral lit_one)
  have s5: "fmul (Fin (8106479329266892 / 2 ^ 50)) (Fin 100) = Fin (6333186975989759 / 2 ^ 43)"
    using toNumber_cert [of 43 "(8106479329266892 / 2 ^ 50) * 100" 6333186975989759] by (simp add: minExp_def)
  have s6: "fceil (Fin (6333186975989759 / 2 ^ 43)) = Fin 720"
    by simp
  have s7: "fdiv (Fin 720) (Fin 100) = lit 7.20"
    by (simp add: lit_def)
  show ?thesis
    by (simp only: finalQty_def s1 s2 s3 s4 s5 s6 s7)
qed

lemma ev_net_example: "netWallArea exampleInputs = Fin 92"
proof -
  have s1: "wallPerimeter exampleInputs = Fin 40"
    by (simp add: exampleInputs_def lit_numeral lit_one)
  have s2: "wallHeight exampleInputs = Fin (5854679515581645 / 2 ^ 51)"
    unfolding exampleInputs_def lit_def using toNumber_cert [of 51 "2.6" 5854679515581645] by (simp add: minExp_def)
  have s3: "fmul (Fin 40) (Fin (5854679515581645 / 2 ^ 51)) = Fin 104"
    using toNumber_cert [of 46 "40 * (5854679515581645 / 2 ^ 51)" 7318349394477056] by (simp add: minExp_def)
  have s4: "windowArea exampleInputs = Fin 8"
    by (simp add: exampleInputs_def lit_numeral lit_one)
  have s5: "fsub (Fin 104) (Fin 8) = Fin 96"
    using toNumber_cert [of 46 "104 - 8" 6755399441055744] by (simp add: minExp_def)
  have s6: "doorCount exampleInputs = Fin 2"
    by (simp add: exampleInputs_def lit_numeral lit_one)
  have s7: "lit 2 = Fin 2"
    by (simp add: lit_numeral lit_one)
  have s8: "fmul (Fin 2) (Fin 2) = Fin 4"
    using toNumber_cert [of 50 "2 * 2" 4503599627370496] by (simp add: minExp_def)
  have s9: "fsub (Fin 96) (Fin 4) = Fin 92"
    using toNumber_cert [of 46 "96 - 4" 6473924464345088] by (simp add: minExp_def)
  have s10: "lit 0 = Fin 0"
    by (simp add: lit_zero)
  have s11: "fmax (Fin 0) (Fin 92) = Fin 92"
    by (simp add: fmax_def)
  show ?thesis
    by (simp only: finalQty_def netWallArea_def grossWallArea_def s1 s2 s3 s4 s5 s6 s7 s8 s9 s10 s11)
qed

lemma ev_brick_example: "finalQty (fmul (netWallArea exampleInputs) (lit 15.5)) = lit 1426.00"
proof -
  have ev_net_example_: "netWallArea exampleInputs = Fin 92"
    by (rule ev_net_example)
  have s2: "lit 15.5 = Fin (8725724278030336 / 2 ^ 49)"
    unfolding lit_def using toNumber_cert [of 49 "15.5" 8725724278030336] by (simp add: minExp_def)
  have s3: "fmul (Fin 92) (Fin (8725724278030336 / 2 ^ 49)) = Fin 1426"
    using toNumber_cert [of 42 "92 * (8725724278030336 / 2 ^ 49)" 6271614324834304] by (simp add: minExp_def)
  have s4: "lit 100 = Fin 100"
    by (simp add: lit_numeral lit_one)
  have s5: "fmul (Fin 1426) (Fin 100) = Fin 142600"
    using toNumber_cert [of 35 "1426 * 100" 4899698691276800] by (simp add: minExp_def)
  have s6: "fceil (Fin 142600) = Fin 142600"
    by simp
  have s7: "fdiv (Fin 142600) (Fin 100) = lit 1426.00"
    by (simp add: lit_def)
  show ?thesis
    by (simp only: finalQty_def ev_net_example_ s2 s3 s4 s5 s6 s7)
qed

lemma ev_plate_60_0_12: "finalQty (fmul (plateArea exampleInputs) (lit 0.12)) = lit 7.2"
proof -
  have s1: "plateArea exampleInputs = Fin 60"
    by (simp add: exampleInputs_def lit_numeral lit_one)
  have s2: "lit 0.12 = Fin (8646911284551352 / 2 ^ 56)"
    unfolding lit_def using toNumber_cert [of 56 "0.12" 8646911284551352] by (simp add: minExp_def)
  have s3: "fmul (Fin 60) (Fin (8646911284551352 / 2 ^ 56)) = Fin (8106479329266892 / 2 ^ 50)"
    using toNumber_cert [of 50 "60 * (8646911284551352 / 2 ^ 56)" 8106479329266892] by (simp add: minExp_def)
  have s4: "lit 100 = Fin 100"
    by (simp add: lit_numeral lit_one)
  have s5: "fmul (Fin (8106479329266892 / 2 ^ 50)) (Fin 100) = Fin (6333186975989759 / 2 ^ 43)"
    using toNumber_cert [of 43 "(8106479329266892 / 2 ^ 50) * 100" 6333186975989759] by (simp add: minExp_def)
  have s6: "fceil (Fin (6333186975989759 / 2 ^ 43)) = Fin 720"
    by simp
  have s7: "fdiv (Fin 720) (Fin 100) = lit 7.2"
    by (simp add: lit_def)
  show ?thesis
    by (simp only: finalQty_def s1 s2 s3 s4 s5 s6 s7)
qed

lemma ev_plate_60_1_10: "finalQty (fmul (plateArea exampleInputs) (lit 1.10)) = lit 66"
proof -
  have s1: "plateArea exampleInputs = Fin 60"
    by (simp add: exampleInputs_def lit_numeral lit_one)
  have s2: "lit 1.10 = Fin (4953959590107546 / 2 ^ 52)"
    unfolding lit_def using toNumber_cert [of 52 "1.10" 4953959590107546] by (simp add: minExp_def)
  have s3: "fmul (Fin 60) (Fin (4953959590107546 / 2 ^ 52)) = Fin 66"
    using toNumber_cert [of 46 "60 * (4953959590107546 / 2 ^ 52)" 4644337115725824] by (simp add: minExp_def)
  have s4: "lit 100 = Fin 100"
    by (simp add: lit_numeral lit_one)
  have s5: "fmul (Fin 66) (Fin 100) = Fin 6600"
    using toNumber_cert [of 40 "66 * 100" 7256776743321600] by (simp add: minExp_def)
  have s6: "fceil (Fin 6600) = Fin 6600"
    by simp
  have s7: "fdiv (Fin 6600) (Fin 100) = lit 66"
    by (simp add: lit_def)
  show ?thesis
    by (simp only: finalQty_def s1 s2 s3 s4 s5 s6 s7)
qed

lemma ev_plate_60_1_5: "finalQty (fmul (plateArea exampleInputs) (lit 1.5)) = lit 90"
proof -
  have s1: "plateArea exampleInputs = Fin 60"
    by (simp add: exampleInputs_def lit_numeral lit_one)
  have s2: "lit 1.5 = Fin (6755399441055744 / 2 ^ 52)"
    unfolding lit_def using toNumber_cert [of 52 "1.5" 6755399441055744] by (simp add: minExp_def)
  have s3: "fmul (Fin 60) (Fin (6755399441055744 / 2 ^ 52)) = Fin 90"
    using toNumber_cert [of 46 "60 * (6755399441055744 / 2 ^ 52)" 6333186975989760] by (simp add: minExp_def)
  have s4: "lit 100 = Fin 100"
    by (simp add: lit_numeral lit_one)
  have s5: "fmul (Fin 90) (Fin 100) = Fin 9000"
    using toNumber_cert [of 39 "90 * 100" 4947802324992000] by (simp add: minExp_def)
  have s6: "fceil (Fin 9000) = Fin 9000"
    by simp
  have s7: "fdiv (Fin 9000) (Fin 100) = lit 90"
    by (simp add: lit_def)
  show ?thesis
    by (simp only: finalQty_def s1 s2 s3 s4 s5 s6 s7)
qed

lemma ev_plate_60_1_15: "finalQty (fmul (plateArea exampleInputs) (lit 1.15)) = lit 69"
proof -
  have s1: "plateArea exampleInputs = Fin 60"
    by (simp add: exampleInputs_def lit_numeral lit_one)
  have s2: "lit 1.15 = Fin (5179139571476070 / 2 ^ 52)"
    unfolding lit_def using toNumber_cert [of 52 "1.15" 5179139571476070] by (simp add: minExp_def)
  have s3: "fmul (Fin 60) (Fin (5179139571476070 / 2 ^ 52)) = Fin 69"
    using toNumber_cert [of 46 "60 * (5179139571476070 / 2 ^ 52)" 4855443348258816] by (simp add: minExp_def)
  have s4: "lit 100 = Fin 100"
    by (simp add: lit_numeral lit_one)
  have s5: "fmul (Fin 69) (Fin 100) = Fin 6900"
    using toNumber_cert [of 40 "69 * 100" 7586630231654400] by (simp add: minExp_def)
  have s6: "fceil (Fin 6900) = Fin 6900"
    by simp
  have s7: "fdiv (Fin 6900) (Fin 100) = lit 69"
    by (simp add: lit_def)
  show ?thesis
    by (simp only: finalQty_def s1 s2 s3 s4 s5 s6 s7)
qed

lemma ev_plate_60_6: "finalQty (fmul (plateArea exampleInputs) (lit 6)) = lit 360"
proof -
  have s1: "plateArea exampleInputs = Fin 60"
    by (simp add: exampleInputs_def lit_numeral lit_one)
  have s2: "lit 6 = Fin 6"
    by (simp add: lit_numeral lit_one)
  have s3: "fmul (Fin 60) (Fin 6) = Fin 360"
    using toNumber_cert [of 44 "60 * 6" 6333186975989760] by (simp add: minExp_def)
  have s4: "lit 100 = Fin 100"
    by (simp add: lit_numeral lit_one)
  have s5: "fmul (Fin 360) (Fin 100) = Fin 36000"
    using toNumber_cert [of 37 "360 * 100" 4947802324992000] by (simp add: minExp_def)
  have s6: "fceil (Fin 36000) = Fin 36000"
    by simp
  have s7: "fdiv (Fin 36000) (Fin 100) = lit 360"
    by (simp add: lit_def)
  show ?thesis
    by (simp only: finalQty_def s1 s2 s3 s4 s5 s6 s7)
qed

lemma ev_plate_75_0_12: "finalQty (fmul (lit 75) (lit 0.12)) = lit 9"
proof -
  have s1: "lit 75 = Fin 75"
    by (simp add: lit_numeral lit_one)
  have s2: "lit 0.12 = Fin (8646911284551352 / 2 ^ 56)"
    unfolding lit_def using toNumber_cert [of 56 "0.12" 8646911284551352] by (simp add: minExp_def)
  have s3: "fmul (Fin 75) (Fin (8646911284551352 / 2 ^ 56)) = Fin 9"
    using toNumber_cert [of 49 "75 * (8646911284551352 / 2 ^ 56)" 5066549580791808] by (simp add: minExp_def)
  have s4: "lit 100 = Fin 100"
    by (simp add: lit_numeral lit_one)
  have s5: "fmul (Fin 9) (Fin 100) = Fin 900"
    using toNumber_cert [of 43 "9 * 100" 7916483719987200] by (simp add: minExp_def)
  have s6: "fceil (Fin 900) = Fin 900"
    by simp
  have s7: "fdiv (Fin 900) (Fin 100) = lit 9"
    by (simp add: lit_def)
  show ?thesis
    by (simp only: finalQty_def s1 s2 s3 s4 s5 s6 s7)
qed

lemma ev_plate_75_1_10: "finalQty (fmul (lit 75) (lit 1.10)) = lit 82.5"
proof -
  have s1: "lit 75 = Fin 75"
    by (simp add: lit_numeral lit_one)
  have s2: "lit 1.10 = Fin (4953959590107546 / 2 ^ 52)"
    unfolding lit_def using toNumber_cert [of 52 "1.10" 4953959590107546] by (simp add: minExp_def)
  have s3: "fmul (Fin 75) (Fin (4953959590107546 / 2 ^ 52)) = Fin (5805421394657280 / 2 ^ 46)"
    using toNumber_cert [of 46 "75 * (4953959590107546 / 2 ^ 52)" 5805421394657280] by (simp add: minExp_def)
  have s4: "lit 100 = Fin 100"
    by (simp add: lit_numeral lit_one)
  have s5: "fmul (Fin (5805421394657280 / 2 ^ 46)) (Fin 100) = Fin 8250"
    using toNumber_cert [of 39 "(5805421394657280 / 2 ^ 46) * 100" 4535485464576000] by (simp add: minExp_def)
  have s6: "fceil (Fin 8250) = Fin 8250"
    by simp
  have s7: "fdiv (Fin 8250) (Fin 100) = lit 82.5"
    by (simp add: lit_def)
  show ?thesis
    by (simp only: finalQty_def s1 s2 s3 s4 s5 s6 s7)
qed

lemma ev_plate_75_1_5: "finalQty (fmul (lit 75) (lit 1.5)) = lit 112.5"
proof -
  have s1: "lit 75 = Fin 75"
    by (simp add: lit_numeral lit_one)
  have s2: "lit 1.5 = Fin (6755399441055744 / 2 ^ 52)"
    unfolding lit_def using toNumber_cert [of 52 "1.5" 6755399441055744] by (simp add: minExp_def)
  have s3: "fmul (Fin 75) (Fin (6755399441055744 / 2 ^ 52)) = Fin (7916483719987200 / 2 ^ 46)"
    using toNumber_cert [of 46 "75 * (6755399441055744 / 2 ^ 52)" 7916483719987200] by (simp add: minExp_def)
  have s4: "lit 100 = Fin 100"
    by (simp add: lit_numeral lit_one)
  have s5: "fmul (Fin (7916483719987200 / 2 ^ 46)) (Fin 100) = Fin 11250"
    using toNumber_cert [of 39 "(7916483719987200 / 2 ^ 46) * 100" 6184752906240000] by (simp add: minExp_def)
  have s6: "fceil (Fin 11250) = Fin 11250"
    by simp
  have s7: "fdiv (Fin 11250) (Fin 100) = lit 112.5"
    by (simp add: lit_def)
  show ?thesis
    by (simp only: finalQty_def s1 s2 s3 s4 s5 s6 s7)
qed

lemma ev_plate_75_1_15: "finalQty (fmul (lit 75) (lit 1.15)) = lit 86.25"
proof -
  have s1: "lit 75 = Fin 75"
    by (simp add: lit_numeral lit_one)
  have s2: "lit 1.15 = Fin (5179139571476070 / 2 ^ 52)"
    unfolding lit_def using toNumber_cert [of 52 "1.15" 5179139571476070] by (simp add: minExp_def)
  have s3: "fmul (Fin 75) (Fin (5179139571476070 / 2 ^ 52)) = Fin (6069304185323520 / 2 ^ 46)"
    using toNumber_cert [of 46 "75 * (5179139571476070 / 2 ^ 52)" 6069304185323520] by (simp add: minExp_def)
  have s4: "lit 100 = Fin 100"
    by (simp add: lit_numeral lit_one)
  have s5: "fmul (Fin (6069304185323520 / 2 ^ 46)) (Fin 100) = Fin 8625"
    using toNumber_cert [of 39 "(6069304185323520 / 2 ^ 46) * 100" 4741643894784000] by (simp add: minExp_def)
  have s6: "fceil (Fin 8625) = Fin 8625"
    by simp
  have s7: "fdiv (Fin 8625) (Fin 100) = lit 86.25"
    by (simp add: lit_def)
  show ?thesis
    by (simp only: finalQty_def s1 s2 s3 s4 s5 s6 s7)
qed

lemma ev_plate_75_6: "finalQty (fmul (lit 75) (lit 6)) = lit 450"
proof -
  have s1: "lit 75 = Fin 75"
    by (simp add: lit_numeral lit_one)
  have s2: "lit 6 = Fin 6"
    by (simp add: lit_numeral lit_one)
  have s3: "fmul (Fin 75) (Fin 6) = Fin 450"
    using toNumber_cert [of 44 "75 * 6" 7916483719987200] by (simp add: minExp_def)
  have s4: "lit 100 = Fin 100"
    by (simp add: lit_numeral lit_one)
  have s5: "fmul (Fin 450) (Fin 100) = Fin 45000"
    using toNumber_cert [of 37 "450 * 100" 6184752906240000] by (simp add: minExp_def)
  have s6: "fceil (Fin 45000) = Fin 45000"
    by simp
  have s7: "fdiv (Fin 45000) (Fin 100) = lit 450"
    by (simp add: lit_def)
  show ?thesis
    by (simp only: finalQty_def s1 s2 s3 s4 s5 s6 s7)
qed

lemma ev_net_boundary: "netWallArea boundaryInputs = Fin (4503599627370496 / 2 ^ 103)"
proof -
  have s1: "wallPerimeter boundaryInputs = Fin (8827055269646172 / 2 ^ 53)"
    unfolding boundaryInputs_def lit_def using toNumber_cert [of 53 "0.98" 8827055269646172] by (simp add: minExp_def)
  have s2: "wallHeight boundaryInputs = Fin 5"
    by (simp add: boundaryInputs_def lit_numeral lit_one)
  have s3: "fmul (Fin (8827055269646172 / 2 ^ 53)) (Fin 5) = Fin (5516909543528858 / 2 ^ 50)"
    using toNumber_cert [of 50 "(8827055269646172 / 2 ^ 53) * 5" 5516909543528858] by (simp add: minExp_def)
  have s4: "windowArea boundaryInputs = Fin (6530219459687219 / 2 ^ 51)"
    unfolding boundaryInputs_def lit_def using toNumber_cert [of 51 "2.9" 6530219459687219] by (simp add: minExp_def)
  have s5: "fsub (Fin (5516909543528858 / 2 ^ 50)) (Fin (6530219459687219 / 2 ^ 51)) = Fin (4503599627370497 / 2 ^ 51)"
    using toNumber_cert [of 51 "(5516909543528858 / 2 ^ 50) - (6530219459687219 / 2 ^ 51)" 4503599627370497] by (simp add: minExp_def)
  have s6: "doorCount boundaryInputs = Fin 1"
    by (simp add: boundaryInputs_def lit_numeral lit_one)
  have s7: "lit 2 = Fin 2"
    by (simp add: lit_numeral lit_one)
  have s8: "fmul (Fin 1) (Fin 2) = Fin 2"
    using toNumber_cert [of 51 "1 * 2" 4503599627370496] by (simp add: minExp_def)
  have s9: "fsub (Fin (4503599627370497 / 2 ^ 51)) (Fin 2) = Fin (4503599627370496 / 2 ^ 103)"
    using toNumber_cert [of 103 "(4503599627370497 / 2 ^ 51) - 2" 4503599627370496] by (simp add: minExp_def)
  have s10: "lit 0 = Fin 0"
    by (simp add: lit_zero)
  have s11: "fmax (Fin 0) (Fin (4503599627370496 / 2 ^ 103)) = Fin (4503599627370496 / 2 ^ 103)"
    by (simp add: fmax_def)
  show ?thesis
    by (simp only: finalQty_def netWallArea_def grossWallArea_def s1 s2 s3 s4 s5 s6 s7 s8 s9 s10 s11)
qed

lemma ev_brick_boundary: "finalQty (fmul (netWallArea boundaryInputs) (lit 15.5)) = lit 0.01"
proof -
  have ev_net_boundary_: "netWallArea boundaryInputs = Fin (4503599627370496 / 2 ^ 103)"
    by (rule ev_net_boundary)
  have s2: "lit 15.5 = Fin (8725724278030336 / 2 ^ 49)"
    unfolding lit_def using toNumber_cert [of 49 "15.5" 8725724278030336] by (simp add: minExp_def)
  have s3: "fmul (Fin (4503599627370496 / 2 ^ 103)) (Fin (8725724278030336 / 2 ^ 49)) = Fin (8725724278030336 / 2 ^ 100)"
    using toNumber_cert [of 100 "(4503599627370496 / 2 ^ 103) * (8725724278030336 / 2 ^ 49)" 8725724278030336] by (simp add: minExp_def)
  have s4: "lit 100 = Fin 100"
    by (simp add: lit_numeral lit_one)
  have s5: "fmul (Fin (8725724278030336 / 2 ^ 100)) (Fin 100) = Fin (6816972092211200 / 2 ^ 93)"
    using toNumber_cert [of 93 "(8725724278030336 / 2 ^ 100) * 100" 6816972092211200] by (simp add: minExp_def)
  have s6: "fceil (Fin (6816972092211200 / 2 ^ 93)) = Fin 1"
    by simp
  have s7: "fdiv (Fin 1) (Fin 100) = lit 0.01"
    by (simp add: lit_def)
  show ?thesis
    by (simp only: finalQty_def ev_net_boundary_ s2 s3 s4 s5 s6 s7)
qed

lemma ev_mortar_boundary: "finalQty (fmul (netWallArea boundaryInputs) (lit 25)) = lit 0.01"
proof -
  have ev_net_boundary_: "netWallArea boundaryInputs = Fin (4503599627370496 / 2 ^ 103)"
    by (rule ev_net_boundary)
  have s2: "lit 25 = Fin 25"
    by (simp add: lit_numeral lit_one)
  have s3: "fmul (Fin (4503599627370496 / 2 ^ 103)) (Fin 25) = Fin (7036874417766400 / 2 ^ 99)"
    using toNumber_cert [of 99 "(4503599627370496 / 2 ^ 103) * 25" 7036874417766400] by (simp add: minExp_def)
  have s4: "lit 100 = Fin 100"
    by (simp add: lit_numeral lit_one)
  have s5: "fmul (Fin (7036874417766400 / 2 ^ 99)) (Fin 100) = Fin (5497558138880000 / 2 ^ 92)"
    using toNumber_cert [of 92 "(7036874417766400 / 2 ^ 99) * 100" 5497558138880000] by (simp add: minExp_def)
  have s6: "fceil (Fin (5497558138880000 / 2 ^ 92)) = Fin 1"
    by simp
  have s7: "fdiv (Fin 1) (Fin 100) = lit 0.01"
    by (simp add: lit_def)
  show ?thesis
    by (simp only: finalQty_def ev_net_boundary_ s2 s3 s4 s5 s6 s7)
qed

lemma ev_plaster_boundary: "finalQty (fmul (netWallArea boundaryInputs) (lit 35)) = lit 0.01"
proof -
  have ev_net_boundary_: "netWallArea boundaryInputs = Fin (4503599627370496 / 2 ^ 103)"
    by (rule ev_net_boundary)
  have s2: "lit 35 = Fin 35"
    by (simp add: lit_numeral lit_one)
  have s3: "fmul (Fin (4503599627370496 / 2 ^ 103)) (Fin 35) = Fin (4925812092436480 / 2 ^ 98)"
    using toNumber_cert [of 98 "(4503599627370496 / 2 ^ 103) * 35" 4925812092436480] by (simp add: minExp_def)
  have s4: "lit 100 = Fin 100"
    by (simp add: lit_numeral lit_one)
  have s5: "fmul (Fin (4925812092436480 / 2 ^ 98)) (Fin 100) = Fin (7696581394432000 / 2 ^ 92)"
    using toNumber_cert [of 92 "(4925812092436480 / 2 ^ 98) * 100" 7696581394432000] by (simp add: minExp_def)
  have s6: "fceil (Fin (7696581394432000 / 2 ^ 92)) = Fin 1"
    by simp
  have s7: "fdiv (Fin 1) (Fin 100) = lit 0.01"
    by (simp add: lit_def)
  show ?thesis
    by (simp only: finalQty_def ev_net_boundary_ s2 s3 s4 s5 s6 s7)
qed

lemma ev_diff_clamped: "fsub (fsub (fmul (wallPerimeter clampedInputs) (wallHeight clampedInputs)) (windowArea clampedInputs)) (fmul (doorCount clampedInputs) (lit 2)) = Fin (- 2)"
proof -
  have s1: "wallPerimeter clampedInputs = Fin 4"
    by (simp add: clampedInputs_def lit_numeral lit_one)
  have s2: "wallHeight clampedInputs = Fin 2"
    by (simp add: clampedInputs_def lit_numeral lit_one)
  have s3: "fmul (Fin 4) (Fin 2) = Fin 8"
    using toNumber_cert [of 49 "4 * 2" 4503599627370496] by (simp add: minExp_def)
  have s4: "windowArea clampedInputs = Fin 6"
    by (simp add: clampedInputs_def lit_numeral lit_one)
  have s5: "fsub (Fin 8) (Fin 6) = Fin 2"
    using toNumber_cert [of 51 "8 - 6" 4503599627370496] by (simp add: minExp_def)
  have s6: "doorCount clampedInputs = Fin 2"
    by (simp add: clampedInputs_def lit_numeral lit_one)
  have s7: "lit 2 = Fin 2"
    by (simp add: lit_numeral lit_one)
  have s8: "fmul (Fin 2) (Fin 2) = Fin 4"
    using toNumber_cert [of 50 "2 * 2" 4503599627370496] by (simp add: minExp_def)
  have s9: "fsub (Fin 2) (Fin 4) = Fin (- 2)"
    by (simp add: toNumber_zero toNumber_numeral toNumber_neg_numeral)
  show ?thesis
    by (simp only: finalQty_def grossWallArea_def s1 s2 s3 s4 s5 s6 s7 s8 s9)
qed

lemma ev_net_clamped: "netWallArea clampedInputs = Fin 0"
proof -
  have s1: "wallPerimeter clampedInputs = Fin 4"
    by (simp add: clampedInputs_def lit_numeral lit_one)
  have s2: "wallHeight clampedInputs = Fin 2"
    by (simp add: clampedInputs_def lit_numeral lit_one)
  have s3: "fmul (Fin 4) (Fin 2) = Fin 8"
    using toNumber_cert [of 49 "4 * 2" 4503599627370496] by (simp add: minExp_def)
  have s4: "windowArea clampedInputs = Fin 6"
    by (simp add: clampedInputs_def lit_numeral lit_one)
  have s5: "fsub (Fin 8) (Fin 6) = Fin 2"
    using toNumber_cert [of 51 "8 - 6" 4503599627370496] by (simp add: minExp_def)
  have s6: "doorCount clampedInputs = Fin 2"
    by (simp add: clampedInputs_def lit_numeral lit_one)
  have s7: "lit 2 = Fin 2"
    by (simp add: lit_numeral lit_one)
  have s8: "fmul (Fin 2) (Fin 2) = Fin 4"
    using toNumber_cert [of 50 "2 * 2" 4503599627370496] by (simp add: minExp_def)
  have s9: "fsub (Fin 2) (Fin 4) = Fin (- 2)"
    by (simp add: toNumber_zero toNumber_numeral toNumber_neg_numeral)
  have s10: "lit 0 = Fin 0"
    by (simp add: lit_zero)
  have s11: "fmax (Fin 0) (Fin (- 2)) = Fin 0"
    by (simp add: fmax_def)
  show ?thesis
    by (simp only: finalQty_def netWallArea_def grossWallArea_def s1 s2 s3 s4 s5 s6 s7 s8 s9 s10 s11)
qed

lemma ev_fields_boundary:
  "wallHeight boundaryInputs = Fin 5"
  "wallPerimeter boundaryInputs = Fin (8827055269646172 / 2 ^ 53)"
  "windowArea boundaryInputs = Fin (6530219459687219 / 2 ^ 51)"
  "doorCount boundaryInputs = Fin 1"
  "plateArea boundaryInputs = Fin 60"
proof -
  show "wallHeight boundaryInputs = Fin 5"
    by (simp add: boundaryInputs_def lit_numeral lit_one)
  show "wallPerimeter boundaryInputs = Fin (8827055269646172 / 2 ^ 53)"
    unfolding boundaryInputs_def lit_def using toNumber_cert [of 53 "0.98" 8827055269646172] by (simp add: minExp_def)
  show "windowArea boundaryInputs = Fin (6530219459687219 / 2 ^ 51)"
    unfolding boundaryInputs_def lit_def using toNumber_cert [of 51 "2.9" 6530219459687219] by (simp add: minExp_def)
  show "doorCount boundaryInputs = Fin 1"
    by (simp add: boundaryInputs_def lit_numeral lit_one)
  show "plateArea boundaryInputs = Fin 60"
    by (simp add: boundaryInputs_def lit_numeral lit_one)
qed





lemma toNumber_int_pow:
  assumes "0 \<le> n" "n < 2 ^ 53" "real_of_int n * 2 ^ j < 2 ^ maxExp"
  shows "toNumber (real_of_int n * 2 ^ j) = Fin (real_of_int n * 2 ^ j)"
proof -
  have "\<not> real_of_int n * 2 ^ j < 0" using assms(1) by (simp add: not_less)
  then show ?thesis
    using assms(3) by (simp add: toNumber_def magnitude_int_pow [OF assms(1,2)])
qed

lemma toNumber_pow: "j < maxExp \<Longrightarrow> toNumber (2 ^ j) = Fin (2 ^ j)"
  using toNumber_int_pow [of 1 j] by simp

lemma perimeter_overflowInputs:
  obtains r where "wallPerimeter overflowInputs = Fin r" "2 ^ 1023 \<le> r"
proof -
  have lo: "(2::real) ^ 1023 \<le> 10 ^ 308" by simp
  have hi: "(10::real) ^ 308 \<le> real_of_int 3 * 2 ^ 1022" by simp
  have a: "toNumber (2 ^ 1023) = Fin (2 ^ 1023)"
    by (rule toNumber_pow) (simp add: maxExp_def)
  have b: "toNumber (real_of_int 3 * 2 ^ 1022) = Fin (real_of_int 3 * 2 ^ 1022)"
    by (rule toNumber_int_pow) (simp_all add: maxExp_def)
  have "fle (Fin (2 ^ 1023)) (toNumber (10 ^ 308))"
    using toNumber_mono [OF lo] by (simp only: a)
  moreover have "fle (toNumber (10 ^ 308)) (Fin (real_of_int 3 * 2 ^ 1022))"
    using toNumber_mono [OF hi] by (simp only: b)
  ultimately obtain r where "toNumber (10 ^ 308) = Fin r" "2 ^ 1023 \<le> r"
    by (cases "toNumber (10 ^ 308)") simp_all
  then show ?thesis
    using that by (simp add: overflowInputs_def lit_def)
qed

lemma quotient_overflows:
  assumes "2 ^ 1023 \<le> r"
  shows "fdiv (Fin r) (lit 0.40) = PosInf"
proof -
  have "(2::real) ^ maxExp = 2 ^ 1023 / (1 / 2)" by (simp add: maxExp_def)
  also have "\<dots> \<le> r / (1 / 2)" using assms by (intro divide_right_mono) simp_all
  also have "\<dots> \<le> r / (7205759403792794 / 2 ^ 54)"
  proof (rule divide_left_mono)
    have "(0::real) \<le> 2 ^ 1023" by simp
    then show "0 \<le> r" using assms by (rule order_trans)
  qed simp_all
  finally have "2 ^ maxExp \<le> r / (7205759403792794 / 2 ^ 54)" .
  then have "toNumber (r / (7205759403792794 / 2 ^ 54)) = PosInf"
    by (rule toNumber_overflow)
  then show ?thesis unfolding lit_0_40 by simp
qed

lemma ev_pgc_overflow:
  "finalQty (fmul (fmul (fceil (fdiv (wallPerimeter overflowInputs) (lit 0.40)))
      (wallHeight overflowInputs)) (lit 1.05)) = NaN"
proof -
  obtain r where r: "wallPerimeter overflowInputs = Fin r" "2 ^ 1023 \<le> r"
    by (rule perimeter_overflowInputs)
  have h: "wallHeight overflowInputs = Fin 0"
    by (simp add: overflowInputs_def lit_zero)
  show ?thesis
    unfolding r(1) quotient_overflows [OF r(2)] h by (simp add: finalQty_def)
qed

lemma fields_overflowInputs:
  "fle (lit 0) (plateArea overflowInputs) \<and> isFinite (plateArea overflowInputs)"
  "fle (lit 0) (wallHeight overflowInputs) \<and> isFinite (wallHeight overflowInputs)"
  "fle (lit 0) (wallPerimeter overflowInputs) \<and> isFinite (wallPerimeter overflowInputs)"
  "fle (lit 0) (windowArea overflowInputs) \<and> isFinite (windowArea overflowInputs)"
  "fle (lit 0) (doorCount overflowInputs) \<and> isFinite (doorCount overflowInputs)"
proof -
  obtain r where r: "wallPerimeter overflowInputs = Fin r" "2 ^ 1023 \<le> r"
    by (rule perimeter_overflowInputs)
  have "(0::real) \<le> 2 ^ 1023" by simp
  then have "0 \<le> r" using r(2) by (rule order_trans)
  then show "fle (lit 0) (wallPerimeter overflowInputs) \<and> isFinite (wallPerimeter overflowInputs)"
    by (simp add: r(1) lit_zero isFinite_def)
qed (simp_all add: overflowInputs_def lit_zero lit_numeral isFinite_def)

lemma below_1e300: "a \<le> 2 ^ 996 \<Longrightarrow> fle (Fin a) (lit (10 ^ 300))"
proof -
  assume a: "a \<le> 2 ^ 996"
  have "(2::real) ^ 996 \<le> 10 ^ 300" by simp
  then have "fle (toNumber (2 ^ 996)) (toNumber (10 ^ 300))" by (rule toNumber_mono)
  moreover have "toNumber (2 ^ 996) = Fin (2 ^ 996)"
    by (rule toNumber_pow) (simp add: maxExp_def)
  ultimately have "fle (Fin (2 ^ 996)) (lit (10 ^ 300))" by (simp add: lit_def)
  then show ?thesis using a by (cases "lit (10 ^ 300)") simp_all
qed

section \<open>The claims\<close>

subsection \<open>C1: order of the categories\<close>

text \<open>
  C1 (as amended). For every input record, each of the five systems and every
  override mapping, the categories of the returned items are, in order: three
  \<open>Platea\<close> items; the block pushed by the \<open>switch\<close>, which is a non-empty run
  of \<open>Muros\<close> items followed by exactly one \<open>Techo\<close> item (the roof structure
  of the system); two \<open>Aberturas\<close> items; three \<open>Techo\<close> items. So the four
  categories all occur, in four blocks, but the roof-structure item of the system block
  stands before the \<open>Aberturas\<close> items.
\<close>

theorem categories_sequence:
  "map category (calculateMaterials inputs system prices) =
     replicate 3 Platea @ replicate (wallItemCount system) Muros @ [Techo] @
     replicate 2 Aberturas @ replicate 3 Techo
   \<and> 0 < wallItemCount system"
proof -
  have "0 < wallItemCount system"
    by (cases system) (simp_all add: wallItemCount_def)
  then show ?thesis
    by (simp only: categories_of_result simp_thms)
qed

text \<open>
  C1 as stated fails: for the example inputs and the masonry system, the result is
  not a concatenation of four non-empty blocks of categories Platea, Muros,
  Aberturas, Techo in that order (item 7, \<open>roof_struct_metal\<close>, is a \<open>Techo\<close>
  item and items 8 and 9 are \<open>Aberturas\<close> items).
\<close>

theorem categories_contiguous_counterexample:
  "\<not> (\<exists>b1 b2 b3 b4.
        calculateMaterials exampleInputs TRADITIONAL Map.empty = b1 @ b2 @ b3 @ b4
        \<and> b1 \<noteq> [] \<and> b2 \<noteq> [] \<and> b3 \<noteq> [] \<and> b4 \<noteq> []
        \<and> (\<forall>m\<in>set b1. category m = Platea) \<and> (\<forall>m\<in>set b2. category m = Muros)
        \<and> (\<forall>m\<in>set b3. category m = Aberturas) \<and> (\<forall>m\<in>set b4. category m = Techo))"
proof
  let ?r = "calculateMaterials exampleInputs TRADITIONAL Map.empty"
  assume "\<exists>b1 b2 b3 b4.
        ?r = b1 @ b2 @ b3 @ b4
        \<and> b1 \<noteq> [] \<and> b2 \<noteq> [] \<and> b3 \<noteq> [] \<and> b4 \<noteq> []
        \<and> (\<forall>m\<in>set b1. category m = Platea) \<and> (\<forall>m\<in>set b2. category m = Muros)
        \<and> (\<forall>m\<in>set b3. category m = Aberturas) \<and> (\<forall>m\<in>set b4. category m = Techo)"
  then obtain b1 b2 b3 b4 where
    split: "?r = b1 @ b2 @ b3 @ b4"
    and cats: "\<forall>m\<in>set b1. category m = Platea" "\<forall>m\<in>set b2. category m = Muros"
      "\<forall>m\<in>set b3. category m = Aberturas" "\<forall>m\<in>set b4. category m = Techo"
    by blast
  have "sorted (map categoryRank
          (map category b1 @ map category b2 @ map category b3 @ map category b4))"
    by (rule blocks_sorted) (use cats in auto)
  then have "sorted (map categoryRank (map category ?r))"
    by (simp add: split)
  then show False
    by (simp add: categories_of_result wallItemCount_def numeral_eq_Suc categoryRank_def)
qed

subsection \<open>C2: price resolution\<close>

text \<open>
  C2. The claim is that an override entry, 0 included, becomes the item's
  unitPrice. With the override \<open>{conc_h17: 0}\<close> the mapping has the entry 0
  for \<open>conc_h17\<close>, and the estimator returns that item with unitPrice 180000,
  its built-in default: \<open>currentPrices[id] || defaultPrice\<close> takes the entry 0
  for a missing one.
\<close>

theorem zero_override_ignored:
  "zeroOverride ''conc_h17'' = Some (lit 0)
   \<and> [(idM m, unitPrice m). m \<leftarrow> calculateMaterials exampleInputs TRADITIONAL zeroOverride,
        idM m = ''conc_h17''] = [(''conc_h17'', lit 180000)]
   \<and> lit 180000 \<noteq> lit 0"
  by (simp add: calc_defs zeroOverride_def priceOr_def truthy_def lit_zero lit_numeral)

subsection \<open>C3: the worked example\<close>

text \<open>
  C3. With plateArea 60, wallHeight 2.6, wallPerimeter 40, windowArea 8 and
  doorCount 2, the masonry system and no override, the result has one item
  \<open>conc_h17\<close>, of quantity 7.20, the net wall area is 92.0, and the one item
  \<open>brick_hollow\<close> has quantity 1426.00. Each value is the double that the
  decimal denotes; on the way \<open>60 * 0.12\<close> is 7.199999999999999 and
  \<open>7.199999999999999 * 100\<close> is 719.9999999999999, whose ceiling is 720.
\<close>

theorem masonry_example:
  "[quantity m. m \<leftarrow> calculateMaterials exampleInputs TRADITIONAL Map.empty,
      idM m = ''conc_h17''] = [lit 7.20]
   \<and> netWallArea exampleInputs = lit 92.0
   \<and> [quantity m. m \<leftarrow> calculateMaterials exampleInputs TRADITIONAL Map.empty,
      idM m = ''brick_hollow''] = [lit 1426.00]"
proof -
  have n: "lit 92.0 = Fin 92" by (simp add: lit_numeral)
  have a: "[quantity m. m \<leftarrow> calculateMaterials exampleInputs TRADITIONAL Map.empty,
      idM m = ''conc_h17''] = [lit 7.20]"
    using ev_conc_example by (simp add: calc_defs)
  have b: "[quantity m. m \<leftarrow> calculateMaterials exampleInputs TRADITIONAL Map.empty,
      idM m = ''brick_hollow''] = [lit 1426.00]"
    using ev_brick_example by (simp add: calc_defs)
  from a b show ?thesis by (simp only: n ev_net_example simp_thms)
qed

subsection \<open>C4: the net wall area is clamped at zero\<close>

text \<open>
  C4 (as amended). For every input record and every system: if the difference
  \<open>wallPerimeter * wallHeight - windowArea - doorCount * 2\<close>, evaluated in
  double arithmetic from left to right as the code evaluates it, is at most 0,
  then the net wall area is 0 and every \<open>Muros\<close> quantity derived from it
  (bricks, mortar, plaster, SIP panels and screws, sheathing and siding boards, wall
  insulation, fasteners, sandwich panels) is 0. For every input record, none of
  these quantities is negative. The other \<open>Muros\<close> items are the framing
  items, which do not use the net wall area.
\<close>

theorem wall_quantities_clamped:
  "(fle (fsub (fsub (grossWallArea inputs) (windowArea inputs)) (fmul (doorCount inputs) (lit 2)))
        (lit 0)
    \<longrightarrow> netWallArea inputs = lit 0
      \<and> (\<forall>m\<in>set (calculateMaterials inputs system prices).
            idM m \<in> set wallAreaIds \<longrightarrow> quantity m = lit 0))
   \<and> (\<forall>m\<in>set (calculateMaterials inputs system prices).
         idM m \<in> set wallAreaIds \<longrightarrow> \<not> flt (quantity m) (lit 0))
   \<and> (\<forall>m\<in>set (calculateMaterials inputs system prices).
         category m = Muros \<longrightarrow> idM m \<in> set wallAreaIds \<or> idM m \<in> set framingIds)"
proof -
  have lits: "lit 25 = Fin 25" "lit 35 = Fin 35" "lit 10 = Fin 10" "lit 30 = Fin 30"
    "lit 8 = Fin 8"
    by (simp_all add: lit_numeral)
  have a: "netWallArea inputs = lit 0
      \<and> (\<forall>m\<in>set (calculateMaterials inputs system prices).
            idM m \<in> set wallAreaIds \<longrightarrow> quantity m = lit 0)"
    if h: "fle (fsub (fsub (grossWallArea inputs) (windowArea inputs))
             (fmul (doorCount inputs) (lit 2))) (lit 0)"
  proof -
    have n: "netWallArea inputs = Fin 0"
      using h by (simp add: netWallArea_def lit_zero fmax_clamped)
    have z: "finalQty (fmul (Fin 0) (lit 15.5)) = Fin 0" "finalQty (fmul (Fin 0) (lit 25)) = Fin 0"
      "finalQty (fmul (Fin 0) (lit 35)) = Fin 0" "finalQty (fmul (Fin 0) (lit 10)) = Fin 0"
      "finalQty (fmul (Fin 0) (lit 1.05)) = Fin 0" "finalQty (fmul (Fin 0) (lit 30)) = Fin 0"
      "finalQty (fmul (Fin 0) (lit 1.1)) = Fin 0" "finalQty (fmul (Fin 0) (lit 8)) = Fin 0"
      by (rule net_quantity_zero, rule lit_15_5 lits lit_1_05 lit_1_1)+
    have s: "finalQty (fmul (fdiv (Fin 0) (lit 2.97)) (lit 1.1)) = Fin 0"
      unfolding lit_2_97 lit_1_1 by (simp add: toNumber_zero finalQty_zero)
    show ?thesis
      using z s by (cases system) (simp_all add: calc_defs n lit_zero wallAreaIds_def)
  qed
  have nn: "\<not> flt (netWallArea inputs) (Fin 0)"
    by (simp add: netWallArea_def lit_zero not_neg_fmax)
  have pos: "\<not> flt (finalQty (fmul (netWallArea inputs) (lit c))) (Fin 0)"
    if "lit c = Fin c'" "0 \<le> c'" for c c'
    unfolding that(1) using that(2) by (intro not_neg_finalQty not_neg_fmul nn) simp
  have p: "\<not> flt (finalQty (fmul (netWallArea inputs) (lit 15.5))) (Fin 0)"
    "\<not> flt (finalQty (fmul (netWallArea inputs) (lit 25))) (Fin 0)"
    "\<not> flt (finalQty (fmul (netWallArea inputs) (lit 35))) (Fin 0)"
    "\<not> flt (finalQty (fmul (netWallArea inputs) (lit 10))) (Fin 0)"
    "\<not> flt (finalQty (fmul (netWallArea inputs) (lit 1.05))) (Fin 0)"
    "\<not> flt (finalQty (fmul (netWallArea inputs) (lit 30))) (Fin 0)"
    "\<not> flt (finalQty (fmul (netWallArea inputs) (lit 1.1))) (Fin 0)"
    "\<not> flt (finalQty (fmul (netWallArea inputs) (lit 8))) (Fin 0)"
    by (rule pos, rule lit_15_5 lits lit_1_05 lit_1_1, simp)+
  have ps: "\<not> flt (finalQty (fmul (fdiv (netWallArea inputs) (lit 2.97)) (lit 1.1))) (Fin 0)"
    unfolding lit_2_97 lit_1_1
    by (intro not_neg_finalQty not_neg_fmul not_neg_fdiv nn) simp_all
  have b: "\<forall>m\<in>set (calculateMaterials inputs system prices).
         idM m \<in> set wallAreaIds \<longrightarrow> \<not> flt (quantity m) (lit 0)"
    using p ps by (cases system) (simp_all add: calc_defs lit_zero wallAreaIds_def)
  have c: "\<forall>m\<in>set (calculateMaterials inputs system prices).
         category m = Muros \<longrightarrow> idM m \<in> set wallAreaIds \<or> idM m \<in> set framingIds"
    by (cases system) (simp_all add: calc_defs wallAreaIds_def framingIds_def)
  from a b c show ?thesis by blast
qed

text \<open>
  A house whose openings (6 + 2 * 2) exceed its gross wall area (4 * 2): the
  difference is -2, and the three masonry wall items have quantity 0.
\<close>

theorem wall_quantities_clamped_witness:
  "fle (fsub (fsub (grossWallArea clampedInputs) (windowArea clampedInputs))
          (fmul (doorCount clampedInputs) (lit 2))) (lit 0)
   \<and> netWallArea clampedInputs = lit 0
   \<and> [(idM m, quantity m). m \<leftarrow> calculateMaterials clampedInputs TRADITIONAL Map.empty,
        category m = Muros]
      = [(''brick_hollow'', lit 0), (''mortar_mix'', lit 0), (''plaster_mix'', lit 0)]"
proof -
  let ?r = "calculateMaterials clampedInputs TRADITIONAL Map.empty"
  have h: "fle (fsub (fsub (grossWallArea clampedInputs) (windowArea clampedInputs))
          (fmul (doorCount clampedInputs) (lit 2))) (lit 0)"
    unfolding grossWallArea_def ev_diff_clamped lit_zero by simp
  from wall_quantities_clamped [of clampedInputs TRADITIONAL Map.empty] h
  have n: "netWallArea clampedInputs = lit 0"
    and q: "\<forall>m\<in>set ?r. idM m \<in> set wallAreaIds \<longrightarrow> quantity m = lit 0"
    by blast+
  from q have "list_all (\<lambda>m. idM m \<in> set wallAreaIds \<longrightarrow> quantity m = lit 0) ?r"
    by (simp only: list_all_iff)
  then have "[(idM m, quantity m). m \<leftarrow> ?r, category m = Muros]
      = [(''brick_hollow'', lit 0), (''mortar_mix'', lit 0), (''plaster_mix'', lit 0)]"
    by (simp add: calc_defs wallAreaIds_def)
  with h n show ?thesis by blast
qed

text \<open>
  C4 as stated fails. The doubles that 0.98, 5, 2.9 and 1 denote are non-negative and
  satisfy windowArea + doorCount * 2 \<open>\<ge>\<close> wallPerimeter * wallHeight as real numbers
  (with equality). The product \<open>0.98 * 5\<close> lies halfway between two doubles and
  is rounded up, so the code is left with a net wall area of \<open>2 ^ -51\<close>, and
  the three masonry wall items have quantity 0.01, not 0.
\<close>

theorem wall_quantities_boundary_counterexample:
  "fle (lit 0) (wallPerimeter boundaryInputs) \<and> fle (lit 0) (wallHeight boundaryInputs)
   \<and> fle (lit 0) (windowArea boundaryInputs) \<and> fle (lit 0) (doorCount boundaryInputs)
   \<and> fle (lit 0) (plateArea boundaryInputs)
   \<and> isFinite (wallPerimeter boundaryInputs) \<and> isFinite (wallHeight boundaryInputs)
   \<and> isFinite (windowArea boundaryInputs) \<and> isFinite (doorCount boundaryInputs)
   \<and> realValue (wallPerimeter boundaryInputs) * realValue (wallHeight boundaryInputs)
       \<le> realValue (windowArea boundaryInputs) + realValue (doorCount boundaryInputs) * 2
   \<and> [(idM m, quantity m). m \<leftarrow> calculateMaterials boundaryInputs TRADITIONAL Map.empty,
        category m = Muros]
      = [(''brick_hollow'', lit 0.01), (''mortar_mix'', lit 0.01), (''plaster_mix'', lit 0.01)]
   \<and> flt (lit 0) (lit 0.01)"
proof -
  have f: "fle (lit 0) (wallPerimeter boundaryInputs) \<and> fle (lit 0) (wallHeight boundaryInputs)
   \<and> fle (lit 0) (windowArea boundaryInputs) \<and> fle (lit 0) (doorCount boundaryInputs)
   \<and> fle (lit 0) (plateArea boundaryInputs)
   \<and> isFinite (wallPerimeter boundaryInputs) \<and> isFinite (wallHeight boundaryInputs)
   \<and> isFinite (windowArea boundaryInputs) \<and> isFinite (doorCount boundaryInputs)
   \<and> realValue (wallPerimeter boundaryInputs) * realValue (wallHeight boundaryInputs)
       \<le> realValue (windowArea boundaryInputs) + realValue (doorCount boundaryInputs) * 2"
    by (simp add: ev_fields_boundary lit_zero isFinite_def realValue_def)
  have q: "[(idM m, quantity m). m \<leftarrow> calculateMaterials boundaryInputs TRADITIONAL Map.empty,
        category m = Muros]
      = [(''brick_hollow'', lit 0.01), (''mortar_mix'', lit 0.01), (''plaster_mix'', lit 0.01)]"
    using ev_brick_boundary ev_mortar_boundary ev_plaster_boundary by (simp add: calc_defs)
  have "flt (lit 0) (lit 0.01)" unfolding lit_0_01 lit_zero by simp
  with f q show ?thesis by (simp only: simp_thms)
qed

subsection \<open>C5: rounding up to hundredths\<close>




subsection \<open>C6: the material ids\<close>

text \<open>
  C6. For every system, the sequence of material ids of the result, and so its
  length, is a constant of the system: the same for every input record and every
  override mapping, zero quantities included; and no id occurs twice in it.
\<close>

theorem material_ids_fixed:
  "map idM (calculateMaterials inputs system prices) = materialIds system
   \<and> length (calculateMaterials inputs system prices) = length (materialIds system)
   \<and> distinct (materialIds system)"
proof -
  have a: "map idM (calculateMaterials inputs system prices) = materialIds system"
    by (rule ids_of_result)
  have b: "length (calculateMaterials inputs system prices) = length (materialIds system)"
    using arg_cong [OF a, of length] by simp
  have c: "distinct (materialIds system)"
    by (cases system) (simp_all add: materialIds_def)
  from a b c show ?thesis by blast
qed

subsection \<open>C8: monotonicity in the slab area\<close>

text \<open>
  C8. For every input record, system and override mapping: if plateArea is
  increased and the other four fields are kept, the result has the same ids and
  categories at the same positions, and no quantity of a \<open>Platea\<close> or
  \<open>Techo\<close> item decreases. The inputs need not be non-negative; the order is
  that of \<open><=\<close> on doubles, the infinities included.
\<close>

theorem plateArea_monotone:
  assumes "fle (plateArea inputs) a"
  shows "list_all2 (\<lambda>m m'. idM m' = idM m \<and> category m' = category m
            \<and> (category m = Platea \<or> category m = Techo \<longrightarrow> fle (quantity m) (quantity m')))
          (calculateMaterials inputs system prices)
          (calculateMaterials (inputs\<lparr>plateArea := a\<rparr>) system prices)"
proof -
  note n = unchanged_netWallArea
  have l6: "lit 6 = Fin 6" by (simp add: lit_numeral)
  have q1: "fle (finalQty (fmul (plateArea inputs) (lit 0.12))) (finalQty (fmul a (lit 0.12)))"
    by (rule finalQty_fmul_mono [OF lit_0_12 _ assms]) simp
  have q2: "fle (finalQty (fmul (plateArea inputs) (lit 1.10))) (finalQty (fmul a (lit 1.10)))"
    by (rule finalQty_fmul_mono [OF lit_1_10 _ assms]) simp
  have q3: "fle (finalQty (fmul (plateArea inputs) (lit 1.5))) (finalQty (fmul a (lit 1.5)))"
    by (rule finalQty_fmul_mono [OF lit_1_5 _ assms]) simp
  have q4: "fle (finalQty (fmul (plateArea inputs) (lit 1.15))) (finalQty (fmul a (lit 1.15)))"
    by (rule finalQty_fmul_mono [OF lit_1_15 _ assms]) simp
  have q5: "fle (finalQty (fmul (plateArea inputs) (lit 6))) (finalQty (fmul a (lit 6)))"
    by (rule finalQty_fmul_mono [OF l6 _ assms]) simp
  show ?thesis
    using q1 q2 q3 q4 q5 by (cases system) (simp_all add: calc_defs n)
qed

text \<open>
  The example inputs with the slab raised from 60 to 75, metal panels: the seven
  \<open>Platea\<close> and \<open>Techo\<close> quantities before and after.
\<close>

theorem plateArea_monotone_witness:
  "fle (plateArea exampleInputs) (lit 75)
   \<and> [quantity m. m \<leftarrow> calculateMaterials exampleInputs METAL_PANEL Map.empty,
        category m = Platea \<or> category m = Techo]
      = [lit 7.2, lit 66, lit 66, lit 90, lit 69, lit 69, lit 360]
   \<and> [quantity m. m \<leftarrow> calculateMaterials (exampleInputs\<lparr>plateArea := lit 75\<rparr>) METAL_PANEL Map.empty,
        category m = Platea \<or> category m = Techo]
      = [lit 9, lit 82.5, lit 82.5, lit 112.5, lit 86.25, lit 86.25, lit 450]
   \<and> list_all2 (\<lambda>m m'. idM m' = idM m \<and> category m' = category m
            \<and> (category m = Platea \<or> category m = Techo \<longrightarrow> fle (quantity m) (quantity m')))
          (calculateMaterials exampleInputs METAL_PANEL Map.empty)
          (calculateMaterials (exampleInputs\<lparr>plateArea := lit 75\<rparr>) METAL_PANEL Map.empty)"
proof -
  have h: "fle (plateArea exampleInputs) (lit 75)"
    by (simp add: exampleInputs_def lit_numeral)
  have q: "[quantity m. m \<leftarrow> calculateMaterials exampleInputs METAL_PANEL Map.empty,
        category m = Platea \<or> category m = Techo]
      = [lit 7.2, lit 66, lit 66, lit 90, lit 69, lit 69, lit 360]"
    using ev_plate_60_0_12 ev_plate_60_1_10 ev_plate_60_1_5 ev_plate_60_1_15 ev_plate_60_6
    by (simp add: calc_defs)
  have q': "[quantity m. m \<leftarrow> calculateMaterials (exampleInputs\<lparr>plateArea := lit 75\<rparr>) METAL_PANEL Map.empty,
        category m = Platea \<or> category m = Techo]
      = [lit 9, lit 82.5, lit 82.5, lit 112.5, lit 86.25, lit 86.25, lit 450]"
    using ev_plate_75_0_12 ev_plate_75_1_10 ev_plate_75_1_5 ev_plate_75_1_15 ev_plate_75_6
    by (simp add: calc_defs)
  from h q q' plateArea_monotone [OF h, of METAL_PANEL Map.empty] show ?thesis by blast
qed

subsection \<open>C9: quantities are non-negative\<close>

text \<open>
  C9 (as amended). For every input record whose five fields are non-negative,
  every system and every override mapping, no returned quantity is negative; if in
  addition the five fields are at most 1e300, every returned quantity is non-negative
  (at least 0, and so not NaN).
\<close>

theorem quantity_nonneg:
  assumes "fle (lit 0) (plateArea inputs)" "fle (lit 0) (wallHeight inputs)"
    "fle (lit 0) (wallPerimeter inputs)" "fle (lit 0) (windowArea inputs)"
    "fle (lit 0) (doorCount inputs)"
  shows "(\<forall>m\<in>set (calculateMaterials inputs system prices). \<not> flt (quantity m) (lit 0))
    \<and> (fle (plateArea inputs) (lit (10 ^ 300)) \<and> fle (wallHeight inputs) (lit (10 ^ 300))
        \<and> fle (wallPerimeter inputs) (lit (10 ^ 300)) \<and> fle (windowArea inputs) (lit (10 ^ 300))
        \<and> fle (doorCount inputs) (lit (10 ^ 300))
       \<longrightarrow> (\<forall>m\<in>set (calculateMaterials inputs system prices). fle (lit 0) (quantity m)))"
proof -
  have "list_all (\<lambda>q. \<not> flt q (Fin 0)) (rawQuantities inputs system)"
    using assms by (rule rawQuantities_not_negative)
  then have "list_all (\<lambda>q. \<not> flt q (Fin 0)) (map finalQty (rawQuantities inputs system))"
    by (simp add: list_all_iff not_neg_finalQty)
  then have "list_all (\<lambda>q. \<not> flt q (Fin 0))
      (map quantity (calculateMaterials inputs system prices))"
    by (simp only: quantities_of_result)
  then have a: "\<forall>m\<in>set (calculateMaterials inputs system prices). \<not> flt (quantity m) (lit 0)"
    by (simp add: list_all_iff lit_zero)
  have b: "\<forall>m\<in>set (calculateMaterials inputs system prices). fle (lit 0) (quantity m)"
    if hi: "fle (plateArea inputs) (lit (10 ^ 300))" "fle (wallHeight inputs) (lit (10 ^ 300))"
      "fle (wallPerimeter inputs) (lit (10 ^ 300))" "fle (windowArea inputs) (lit (10 ^ 300))"
      "fle (doorCount inputs) (lit (10 ^ 300))"
  proof -
    have "list_all (\<lambda>q. fle (Fin 0) q) (rawQuantities inputs system)"
      using assms hi by (rule rawQuantities_nonneg)
    then have "list_all (\<lambda>q. fle (Fin 0) q) (map finalQty (rawQuantities inputs system))"
      by (simp add: list_all_iff nonneg_finalQty)
    then have "list_all (\<lambda>q. fle (Fin 0) q)
        (map quantity (calculateMaterials inputs system prices))"
      by (simp only: quantities_of_result)
    then show ?thesis by (simp add: list_all_iff lit_zero)
  qed
  from a b show ?thesis by blast
qed

text \<open>
  The house whose openings exceed its walls, steel frame: its five fields lie between 0
  and 1e300, and all fourteen quantities are at least 0.
\<close>

theorem quantity_nonneg_witness:
  "fle (lit 0) (plateArea clampedInputs) \<and> fle (lit 0) (wallHeight clampedInputs)
   \<and> fle (lit 0) (wallPerimeter clampedInputs) \<and> fle (lit 0) (windowArea clampedInputs)
   \<and> fle (lit 0) (doorCount clampedInputs)
   \<and> fle (plateArea clampedInputs) (lit (10 ^ 300)) \<and> fle (wallHeight clampedInputs) (lit (10 ^ 300))
   \<and> fle (wallPerimeter clampedInputs) (lit (10 ^ 300))
   \<and> fle (windowArea clampedInputs) (lit (10 ^ 300)) \<and> fle (doorCount clampedInputs) (lit (10 ^ 300))
   \<and> list_all (\<lambda>m. fle (lit 0) (quantity m)) (calculateMaterials clampedInputs STEEL_FRAME Map.empty)"
proof -
  have lo: "fle (lit 0) (plateArea clampedInputs)" "fle (lit 0) (wallHeight clampedInputs)"
    "fle (lit 0) (wallPerimeter clampedInputs)" "fle (lit 0) (windowArea clampedInputs)"
    "fle (lit 0) (doorCount clampedInputs)"
    by (simp_all add: clampedInputs_def lit_zero lit_numeral)
  have f: "plateArea clampedInputs = Fin 60" "wallHeight clampedInputs = Fin 2"
    "wallPerimeter clampedInputs = Fin 4" "windowArea clampedInputs = Fin 6"
    "doorCount clampedInputs = Fin 2"
    by (simp_all add: clampedInputs_def lit_numeral)
  have hi: "fle (plateArea clampedInputs) (lit (10 ^ 300))"
    "fle (wallHeight clampedInputs) (lit (10 ^ 300))"
    "fle (wallPerimeter clampedInputs) (lit (10 ^ 300))"
    "fle (windowArea clampedInputs) (lit (10 ^ 300))"
    "fle (doorCount clampedInputs) (lit (10 ^ 300))"
    unfolding f by (rule below_1e300, simp)+
  from quantity_nonneg [OF lo, of STEEL_FRAME Map.empty] hi
  have "\<forall>m\<in>set (calculateMaterials clampedInputs STEEL_FRAME Map.empty). fle (lit 0) (quantity m)"
    by blast
  then have "list_all (\<lambda>m. fle (lit 0) (quantity m))
      (calculateMaterials clampedInputs STEEL_FRAME Map.empty)"
    by (simp only: list_all_iff)
  with lo hi show ?thesis by blast
qed

text \<open>
  C9 as stated fails. With the finite non-negative fields wallPerimeter 1e308 and
  wallHeight 0 and the steel frame, \<open>1e308 / 0.40\<close> overflows to Infinity, its
  ceiling is Infinity, and \<open>Infinity * 0\<close> is NaN: the quantity of
  \<open>pgc_100\<close> is NaN, which is not at least 0.
\<close>

theorem quantity_nan_counterexample:
  "fle (lit 0) (plateArea overflowInputs) \<and> isFinite (plateArea overflowInputs)
   \<and> fle (lit 0) (wallHeight overflowInputs) \<and> isFinite (wallHeight overflowInputs)
   \<and> fle (lit 0) (wallPerimeter overflowInputs) \<and> isFinite (wallPerimeter overflowInputs)
   \<and> fle (lit 0) (windowArea overflowInputs) \<and> isFinite (windowArea overflowInputs)
   \<and> fle (lit 0) (doorCount overflowInputs) \<and> isFinite (doorCount overflowInputs)
   \<and> [quantity m. m \<leftarrow> calculateMaterials overflowInputs STEEL_FRAME Map.empty,
        idM m = ''pgc_100''] = [NaN]
   \<and> \<not> fle (lit 0) NaN"
proof -
  have q: "[quantity m. m \<leftarrow> calculateMaterials overflowInputs STEEL_FRAME Map.empty,
        idM m = ''pgc_100''] = [NaN]"
    using ev_pgc_overflow by (simp add: calc_defs)
  have "\<not> fle (lit 0) NaN" by simp
  with q fields_overflowInputs show ?thesis by (simp only: simp_thms)
qed

subsection \<open>C10: unit prices are positive\<close>

text \<open>
  C10. For every input record, system and override mapping whose values are all
  non-negative, the unitPrice of every returned item is strictly positive; an item
  whose override entry is exactly 0 gets the built-in default of its id, not 0.
\<close>

theorem unitPrice_positive:
  assumes "\<forall>v\<in>ran prices. fle (lit 0) v"
  shows "\<forall>m\<in>set (calculateMaterials inputs system prices).
     flt (lit 0) (unitPrice m)
     \<and> (prices (idM m) = Some (lit 0) \<longrightarrow> unitPrice m = defaultPrice (idM m))"
proof
  fix m assume m: "m \<in> set (calculateMaterials inputs system prices)"
  have d: "flt (lit 0) (defaultPrice (idM m))" using m by (intro defaultPrice_pos idM_of_item)
  have u: "unitPrice m = priceOr (prices (idM m)) (defaultPrice (idM m))"
    using m by (rule unitPrice_of_item)
  have "flt (lit 0) (unitPrice m)"
  proof (cases "prices (idM m)")
    case None
    then show ?thesis using d u by (simp add: priceOr_def)
  next
    case (Some v)
    then have "v \<in> ran prices" by (auto simp: ran_def)
    then have "fle (lit 0) v" using assms by blast
    then have "truthy v \<longrightarrow> flt (lit 0) v"
      by (cases v) (simp_all add: truthy_def lit_zero)
    then show ?thesis using d u Some by (simp add: priceOr_def)
  qed
  moreover have "prices (idM m) = Some (lit 0) \<longrightarrow> unitPrice m = defaultPrice (idM m)"
    using u by (simp add: priceOr_def truthy_def lit_zero)
  ultimately show "flt (lit 0) (unitPrice m)
      \<and> (prices (idM m) = Some (lit 0) \<longrightarrow> unitPrice m = defaultPrice (idM m))"
    by simp
qed

text \<open>
  The override \<open>{conc_h17: 0}\<close> has the one value 0, and the concrete is priced
  at its default, 180000.
\<close>

theorem unitPrice_positive_witness:
  "ran zeroOverride = {lit 0}
   \<and> [(idM m, unitPrice m). m \<leftarrow> calculateMaterials exampleInputs TRADITIONAL zeroOverride,
        idM m = ''conc_h17''] = [(''conc_h17'', lit 180000)]"
proof -
  let ?r = "calculateMaterials exampleInputs TRADITIONAL zeroOverride"
  have r: "ran zeroOverride = {lit 0}" by (simp add: zeroOverride_def)
  then have h: "\<forall>v\<in>ran zeroOverride. fle (lit 0) v" by (simp add: lit_zero)
  have "list_all (\<lambda>m. flt (lit 0) (unitPrice m)
      \<and> (zeroOverride (idM m) = Some (lit 0) \<longrightarrow> unitPrice m = defaultPrice (idM m))) ?r"
    using unitPrice_positive [OF h, of exampleInputs TRADITIONAL] by (simp only: list_all_iff)
  then show ?thesis using r
    by (simp add: calc_defs zeroOverride_def defaultPrice_def defaultPrices_def)
qed

end
